theory Spec2Isabelle
  imports Complex_Main "HOL-Library.Word"
begin

section \<open>The mirror multi-stroke of app/paint/gimpmirror.c\<close>

text \<open>
  The development embeds \<^verbatim>\<open>app/paint/gimpmirror.c\<close>: the mirror object, the derivation
  of the mirrored stroke coordinates, the cache of GEGL operations and its selector, the
  three symmetry setters, the property setter and the two callbacks run when a guide is
  removed or moved.

  Conventions of the embedding:
  \<^item> \<^verbatim>\<open>gdouble\<close> is idealised as \<open>real\<close>: rounding, infinities and NaN are not modelled.
    The only double arithmetic of the file is \<^verbatim>\<open>2.0 * p - c\<close>, the halving of a converted
    integer and the conversions between \<^verbatim>\<open>gint\<close> and \<^verbatim>\<open>gdouble\<close>.
  \<^item> \<^verbatim>\<open>gint\<close> is \<open>int\<close>: the file only compares and converts its \<^verbatim>\<open>gint\<close> values, so no
    wrap-around can arise; the conversion of a double to \<^verbatim>\<open>gint\<close> is defined inside the
    range of \<^verbatim>\<open>gint\<close> only. The \<^verbatim>\<open>guint32\<close> guide counter, which is incremented, is a
    32-bit word.
  \<^item> a pointer to a heap object is an address (\<open>obj_ref\<close>), \<^verbatim>\<open>NULL\<close> is \<open>None\<close>; the objects
    live in explicit stores of the host state, with their reference counts.
  \<^item> every function takes the pair of the mirror and the host state and returns the
    updated pair.
  \<^item> functions of GIMP that the file calls and that are defined elsewhere are modelled from
    the specification and marked so. The host delivers the signals of a guide at once,
    inside the call that causes them, to the callbacks of the mirror that are connected.
\<close>

type_synonym gdouble = real
type_synonym gint = int
type_synonym obj_ref = nat

subsection \<open>Data\<close>

text \<open>
  \<^verbatim>\<open>GimpCoords\<close> is declared outside the file. The file reads and writes its fields
  \<^verbatim>\<open>x\<close> and \<^verbatim>\<open>y\<close> and copies the structure whole (\<^verbatim>\<open>g_memdup\<close>); all remaining fields
  (pressure, tilt, wheel, ...) are the parameter \<open>'r\<close>, held in the field \<open>rest\<close>.
\<close>

record 'r GimpCoords =
  x :: gdouble
  y :: gdouble
  rest :: 'r

text \<open>
  A GEGL node as \<^verbatim>\<open>gegl_node_new_child\<close> builds it: the name of the operation and the
  list of its properties, in the order of the call.
\<close>

record GeglNode =
  operation :: string
  properties :: "(string \<times> gdouble) list"

datatype GimpOrientationType = GIMP_ORIENTATION_HORIZONTAL | GIMP_ORIENTATION_VERTICAL

text \<open>
  A guide object: the arguments of \<^verbatim>\<open>gimp_mirror_guide_new\<close> and the position the guide
  has in the image, which is undefined (\<open>None\<close>) until the guide is placed.
\<close>

record GimpGuide =
  orientation :: GimpOrientationType
  guide_ID :: "32 word"
  guide_position :: "gint option"

text \<open>The two callbacks of the file that are connected to signals of a guide.\<close>

datatype callback = CB_guide_removed | CB_guide_position

datatype GLogLevel = G_LOG_LEVEL_CRITICAL | G_LOG_LEVEL_WARNING

text \<open>
  The fields of \<^verbatim>\<open>GimpMultiStroke\<close> (the parent instance) that the file uses, and the
  fields of \<^verbatim>\<open>GimpMirror\<close>. The image the multi-stroke points to is part of the host
  state below.
\<close>

record 'r GimpMultiStroke =
  strokes :: "'r GimpCoords list"
  origin :: "'r GimpCoords option"

record 'r GimpMirror = "'r GimpMultiStroke" +
  horizontal_mirror :: bool
  vertical_mirror :: bool
  point_symmetry :: bool
  disable_transformation :: bool
  horizontal_position :: gdouble
  vertical_position :: gdouble
  horizontal_guide :: "obj_ref option"
  vertical_guide :: "obj_ref option"
  horizontal_op :: "obj_ref option"
  vertical_op :: "obj_ref option"
  central_op :: "obj_ref option"
  last_paint_width :: gint
  last_paint_height :: gint

text \<open>
  The state of everything the mirror calls into: the image (its size, its list of guides,
  whether the mirror is still installed in it), the \<^verbatim>\<open>Gimp\<close> guide counter, the object
  stores with the reference counts, the connected signal handlers, the GLib log and the
  count of emitted \<^verbatim>\<open>strokes-updated\<close> signals. The conversion of a double outside the
  range of \<^verbatim>\<open>gint\<close> is undefined in C: what the platform yields for it is the parameter
  \<open>out_of_range_gint\<close>, and each such conversion is counted in \<open>undefined_conversions\<close>.
\<close>

record Host =
  image_width :: gint
  image_height :: gint
  image_guides :: "obj_ref list"
  mirror_installed :: bool
  remove_multi_stroke_calls :: nat
  next_guide_ID :: "32 word"
  guide_heap :: "obj_ref \<rightharpoonup> GimpGuide"
  node_heap :: "obj_ref \<rightharpoonup> GeglNode"
  ref_count :: "obj_ref \<Rightarrow> nat"
  next_ref :: obj_ref
  handlers :: "(obj_ref \<times> string \<times> callback) list"
  glib_log :: "GLogLevel list"
  strokes_updated :: nat
  out_of_range_gint :: "gdouble \<Rightarrow> gint"
  undefined_conversions :: nat

subsection \<open>The stroke deriver\<close>

text \<open>
  \<^verbatim>\<open>gimp_mirror_update_strokes\<close>: the list is built by prepending and reversed at the end,
  as in the source. The drawable argument is unused by the source and left out.
\<close>

definition gimp_mirror_update_strokes ::
  "'r GimpCoords \<Rightarrow> 'r GimpMirror \<times> Host \<Rightarrow> 'r GimpMirror \<times> Host" where
  "gimp_mirror_update_strokes orig s =
     (case s of (m, e) \<Rightarrow>
        let l0 = [orig];
            l1 = (if horizontal_mirror m
                  then orig\<lparr>y := 2 * horizontal_position m - y orig\<rparr> # l0
                  else l0);
            l2 = (if vertical_mirror m
                  then orig\<lparr>x := 2 * vertical_position m - x orig\<rparr> # l1
                  else l1);
            l3 = (if point_symmetry m
                  then orig\<lparr>x := 2 * vertical_position m - x orig,
                            y := 2 * horizontal_position m - y orig\<rparr> # l2
                  else l2)
        in (m\<lparr>strokes := rev l3\<rparr>, e\<lparr>strokes_updated := Suc (strokes_updated e)\<rparr>))"

subsection \<open>GLib and GEGL\<close>

text \<open>
  \<^verbatim>\<open>g_return_if_fail\<close>, \<^verbatim>\<open>g_return_val_if_fail\<close> and the type-checking casts of GLib
  log a message of level critical and return; they do not abort.
\<close>

definition g_log :: "GLogLevel \<Rightarrow> Host \<Rightarrow> Host" where
  "g_log l e = e\<lparr>glib_log := glib_log e @ [l]\<rparr>"

text \<open>
  Reference counting. An object whose count is zero is dead; its contents stay in the
  store, and an address is never handed out twice.
\<close>

definition g_object_ref :: "obj_ref option \<Rightarrow> Host \<Rightarrow> obj_ref option \<times> Host" where
  "g_object_ref p e =
     (case p of
        None \<Rightarrow> (None, g_log G_LOG_LEVEL_CRITICAL e)
      | Some r \<Rightarrow> (Some r, e\<lparr>ref_count := (ref_count e)(r := Suc (ref_count e r))\<rparr>))"

definition g_object_unref :: "obj_ref \<Rightarrow> Host \<Rightarrow> Host" where
  "g_object_unref r e = e\<lparr>ref_count := (ref_count e)(r := ref_count e r - 1)\<rparr>"

definition gegl_node_new_child :: "GeglNode \<Rightarrow> Host \<Rightarrow> obj_ref \<times> Host" where
  "gegl_node_new_child node e =
     (next_ref e,
      e\<lparr>node_heap := (node_heap e)(next_ref e \<mapsto> node),
        ref_count := (ref_count e)(next_ref e := 1),
        next_ref := Suc (next_ref e)\<rparr>)"

definition gimp_mirror_guide_new ::
  "GimpOrientationType \<Rightarrow> 32 word \<Rightarrow> Host \<Rightarrow> obj_ref \<times> Host" where
  "gimp_mirror_guide_new orient gid e =
     (next_ref e,
      e\<lparr>guide_heap := (guide_heap e)(next_ref e \<mapsto>
            \<lparr>orientation = orient, guide_ID = gid, guide_position = None\<rparr>),
        ref_count := (ref_count e)(next_ref e := 1),
        next_ref := Suc (next_ref e)\<rparr>)"

definition g_signal_connect :: "obj_ref \<Rightarrow> string \<Rightarrow> callback \<Rightarrow> Host \<Rightarrow> Host" where
  "g_signal_connect g sig cb e = e\<lparr>handlers := handlers e @ [(g, sig, cb)]\<rparr>"

definition g_signal_handlers_disconnect_by_func ::
  "obj_ref option \<Rightarrow> callback \<Rightarrow> Host \<Rightarrow> Host" where
  "g_signal_handlers_disconnect_by_func p cb e =
     (case p of
        None \<Rightarrow> g_log G_LOG_LEVEL_CRITICAL e
      | Some g \<Rightarrow>
          e\<lparr>handlers := filter (\<lambda>h. \<not> (fst h = g \<and> snd (snd h) = cb)) (handlers e)\<rparr>)"

text \<open>
  The C conversion of a double to \<^verbatim>\<open>gint\<close> truncates towards zero when the truncated value
  is a \<^verbatim>\<open>gint\<close> (32 bits, signed). Otherwise it is undefined: the model takes the value the
  platform yields from the host state and counts the conversion.
\<close>

definition gint_of_gdouble :: "gdouble \<Rightarrow> Host \<Rightarrow> gint \<times> Host" where
  "gint_of_gdouble d e =
     (let t = (if 0 \<le> d then \<lfloor>d\<rfloor> else \<lceil>d\<rceil>)
      in if - 2147483648 \<le> t \<and> t \<le> 2147483647 then (t, e)
         else (out_of_range_gint e d,
               e\<lparr>undefined_conversions := Suc (undefined_conversions e)\<rparr>))"

subsection \<open>The multi-stroke and the reset\<close>

text \<open>
  Modelled from the spec: \<^verbatim>\<open>gimp_multi_stroke_set_origin\<close> (gimpmultistroke.c, not part
  of the sources at hand) records the origin and runs the \<^verbatim>\<open>update_strokes\<close> method
  of the class, which \<^verbatim>\<open>gimp_mirror_class_init\<close> sets to \<^verbatim>\<open>gimp_mirror_update_strokes\<close>.
\<close>

definition gimp_multi_stroke_set_origin ::
  "'r GimpCoords \<Rightarrow> 'r GimpMirror \<times> Host \<Rightarrow> 'r GimpMirror \<times> Host" where
  "gimp_multi_stroke_set_origin orig s =
     (case s of (m, e) \<Rightarrow> gimp_mirror_update_strokes orig (m\<lparr>origin := Some orig\<rparr>, e))"

definition gimp_mirror_reset :: "'r GimpMirror \<times> Host \<Rightarrow> 'r GimpMirror \<times> Host" where
  "gimp_mirror_reset s =
     (case s of (m, e) \<Rightarrow>
        (case origin m of
           Some orig \<Rightarrow> gimp_multi_stroke_set_origin orig (m, e)
         | None \<Rightarrow> (m, e)))"

text \<open>
  Modelled from the spec: \<^verbatim>\<open>gimp_image_remove_multi_stroke\<close> (core, not part of the
  sources at hand) uninstalls the mirror from the image; the calls are counted.
\<close>

definition gimp_image_remove_multi_stroke :: "Host \<Rightarrow> Host" where
  "gimp_image_remove_multi_stroke e =
     e\<lparr>mirror_installed := False,
       remove_multi_stroke_calls := Suc (remove_multi_stroke_calls e)\<rparr>"

subsection \<open>The two callbacks\<close>

text \<open>
  Modelled from the spec: \<^verbatim>\<open>gimp_guide_get_position\<close> (core/gimpguide.c, not part of the
  sources at hand) reads the position of a guide object; there is none to read for an
  address without a guide object or a guide that was never placed.
\<close>

definition gimp_guide_get_position :: "obj_ref \<Rightarrow> Host \<Rightarrow> gint option" where
  "gimp_guide_get_position g e =
     (case guide_heap e g of None \<Rightarrow> None | Some gd \<Rightarrow> guide_position gd)"

text \<open>
  \<^verbatim>\<open>gimp_mirror_guide_position_cb\<close>; \<open>object\<close> is the guide whose position changed. The
  position read is converted to a double. The host runs the callback after it has given
  the guide a position; where none can be read the model leaves the mirror as it is.
\<close>

definition gimp_mirror_guide_position_cb ::
  "obj_ref \<Rightarrow> 'r GimpMirror \<times> Host \<Rightarrow> 'r GimpMirror \<times> Host" where
  "gimp_mirror_guide_position_cb object s =
     (case s of (m, e) \<Rightarrow>
        if Some object = horizontal_guide m
        then (case gimp_guide_get_position object e of
                Some p \<Rightarrow> (m\<lparr>horizontal_position := real_of_int p\<rparr>, e)
              | None \<Rightarrow> (m, e))
        else if Some object = vertical_guide m
        then (case gimp_guide_get_position object e of
                Some p \<Rightarrow> (m\<lparr>vertical_position := real_of_int p\<rparr>, e)
              | None \<Rightarrow> (m, e))
        else (m, e))"

text \<open>
  \<^verbatim>\<open>gimp_mirror_guide_removed_cb\<close>; \<open>object\<close> is the guide that emitted the signal.
\<close>

definition gimp_mirror_guide_removed_cb ::
  "obj_ref \<Rightarrow> 'r GimpMirror \<times> Host \<Rightarrow> 'r GimpMirror \<times> Host" where
  "gimp_mirror_guide_removed_cb object s =
     (case s of (m, e) \<Rightarrow>
        let e1 = g_signal_handlers_disconnect_by_func (Some object) CB_guide_removed e;
            e2 = g_signal_handlers_disconnect_by_func (Some object) CB_guide_position e1;
            (m1, e3) =
              (if Some object = horizontal_guide m
               then (m\<lparr>horizontal_guide := None,
                       horizontal_mirror := False,
                       point_symmetry := False,
                       horizontal_position := 0\<rparr>,
                     g_object_unref object e2)
               else if Some object = vertical_guide m
               then (m\<lparr>vertical_guide := None,
                       vertical_mirror := False,
                       point_symmetry := False,
                       vertical_position := 0\<rparr>,
                     g_object_unref object e2)
               else (m, e2))
        in if horizontal_guide m1 = None \<and> vertical_guide m1 = None
           then (m1, gimp_image_remove_multi_stroke e3)
           else gimp_mirror_reset (m1, e3))"

subsection \<open>The guides of the host image\<close>

text \<open>
  Modelled from the spec: \<^verbatim>\<open>gimp_guide_set_position\<close> (core/gimpguide.c, not part of the
  sources at hand) moves the guide object to a position, and the host delivers the
  change of position at once: when the position callback of the mirror is connected to
  the guide, it runs inside the call. It reads the position from the guide, so running it
  once stands for running it for each connection.
\<close>

definition gimp_guide_set_position ::
  "obj_ref \<Rightarrow> gint \<Rightarrow> 'r GimpMirror \<times> Host \<Rightarrow> 'r GimpMirror \<times> Host" where
  "gimp_guide_set_position g pos s =
     (case s of (m, e) \<Rightarrow>
        let e1 = e\<lparr>guide_heap := (guide_heap e)(g :=
                     map_option (\<lambda>gd. gd\<lparr>guide_position := Some pos\<rparr>) (guide_heap e g))\<rparr>
        in if (g, ''notify::position'', CB_guide_position) \<in> set (handlers e1)
           then gimp_mirror_guide_position_cb g (m, e1)
           else (m, e1))"

text \<open>
  Modelled from the spec: \<^verbatim>\<open>gimp_image_add_guide\<close> and \<^verbatim>\<open>gimp_image_remove_guide\<close>
  (core/gimpimage-guides.c, not part of the sources at hand) add a guide to the list of
  guides of the image, at a position, and remove it from the list. Nothing keeps a guide
  from being added twice; removing takes one entry out. The host delivers the removal at
  once: when the removal callback of the mirror is connected to the guide, it runs inside
  the call.
\<close>

definition gimp_image_add_guide ::
  "obj_ref \<Rightarrow> gint \<Rightarrow> 'r GimpMirror \<times> Host \<Rightarrow> 'r GimpMirror \<times> Host" where
  "gimp_image_add_guide g pos s =
     (case s of (m, e) \<Rightarrow>
        gimp_guide_set_position g pos (m, e\<lparr>image_guides := g # image_guides e\<rparr>))"

definition gimp_image_remove_guide ::
  "obj_ref option \<Rightarrow> 'r GimpMirror \<times> Host \<Rightarrow> 'r GimpMirror \<times> Host" where
  "gimp_image_remove_guide p s =
     (case s of (m, e) \<Rightarrow>
        (case p of
           None \<Rightarrow> (m, g_log G_LOG_LEVEL_CRITICAL e)
         | Some g \<Rightarrow>
             let e1 = e\<lparr>image_guides := remove1 g (image_guides e)\<rparr>
             in if (g, ''removed'', CB_guide_removed) \<in> set (handlers e1)
                then gimp_mirror_guide_removed_cb g (m, e1)
                else (m, e1)))"

subsection \<open>Construction\<close>

text \<open>
  GObject hands \<^verbatim>\<open>gimp_mirror_init\<close> an instance whose memory is filled with zeros; the
  function sets the three flags and the two guides.
\<close>

definition zeroed_instance :: "'r GimpMirror" where
  "zeroed_instance =
     \<lparr>strokes = [], origin = None,
      horizontal_mirror = False, vertical_mirror = False, point_symmetry = False,
      disable_transformation = False,
      horizontal_position = 0, vertical_position = 0,
      horizontal_guide = None, vertical_guide = None,
      horizontal_op = None, vertical_op = None, central_op = None,
      last_paint_width = 0, last_paint_height = 0\<rparr>"

definition gimp_mirror_init :: "'r GimpMirror \<Rightarrow> 'r GimpMirror" where
  "gimp_mirror_init m =
     m\<lparr>horizontal_mirror := False, vertical_mirror := False, point_symmetry := False,
       horizontal_guide := None, vertical_guide := None\<rparr>"

text \<open>
  A host with an image of the given size, with no guide, object or handler yet, on a
  platform whose conversion yields the least \<^verbatim>\<open>gint\<close> outside the range.
\<close>

definition fresh_host :: "gint \<Rightarrow> gint \<Rightarrow> Host" where
  "fresh_host w h =
     \<lparr>image_width = w, image_height = h, image_guides = [],
      mirror_installed = True, remove_multi_stroke_calls = 0,
      next_guide_ID = 1,
      guide_heap = Map.empty, node_heap = Map.empty,
      ref_count = (\<lambda>r. 0), next_ref = 0,
      handlers = [], glib_log = [], strokes_updated = 0,
      out_of_range_gint = (\<lambda>d. - 2147483648), undefined_conversions = 0\<rparr>"

subsection \<open>The operation cache and the selector\<close>

text \<open>The three nodes \<^verbatim>\<open>gimp_mirror_prepare_operations\<close> builds, with its argument lists.\<close>

definition horizontal_reflect :: "gint \<Rightarrow> GeglNode" where
  "horizontal_reflect paint_height =
     \<lparr>operation = ''gegl:reflect'',
      properties = [(''origin-x'', 0), (''origin-y'', real_of_int paint_height / 2),
                    (''x'', 1), (''y'', 0)]\<rparr>"

definition vertical_reflect :: "gint \<Rightarrow> GeglNode" where
  "vertical_reflect paint_width =
     \<lparr>operation = ''gegl:reflect'',
      properties = [(''origin-x'', real_of_int paint_width / 2), (''origin-y'', 0),
                    (''x'', 0), (''y'', 1)]\<rparr>"

definition central_rotate :: "gint \<Rightarrow> gint \<Rightarrow> GeglNode" where
  "central_rotate paint_width paint_height =
     \<lparr>operation = ''gegl:rotate'',
      properties = [(''origin-x'', real_of_int paint_width / 2),
                    (''origin-y'', real_of_int paint_height / 2),
                    (''degrees'', 180)]\<rparr>"

definition unref_if_set :: "obj_ref option \<Rightarrow> Host \<Rightarrow> Host" where
  "unref_if_set p e = (case p of None \<Rightarrow> e | Some r \<Rightarrow> g_object_unref r e)"

definition gimp_mirror_prepare_operations ::
  "gint \<Rightarrow> gint \<Rightarrow> 'r GimpMirror \<times> Host \<Rightarrow> 'r GimpMirror \<times> Host" where
  "gimp_mirror_prepare_operations paint_width paint_height s =
     (case s of (m, e) \<Rightarrow>
        if paint_width = last_paint_width m \<and> paint_height = last_paint_height m
        then (m, e)
        else
          let m1 = m\<lparr>last_paint_width := paint_width, last_paint_height := paint_height\<rparr>;
              e1 = unref_if_set (horizontal_op m1) e;
              (h_op, e2) = gegl_node_new_child (horizontal_reflect paint_height) e1;
              m2 = m1\<lparr>horizontal_op := Some h_op\<rparr>;
              e3 = unref_if_set (vertical_op m2) e2;
              (v_op, e4) = gegl_node_new_child (vertical_reflect paint_width) e3;
              m3 = m2\<lparr>vertical_op := Some v_op\<rparr>;
              e5 = unref_if_set (central_op m3) e4;
              (c_op, e6) = gegl_node_new_child (central_rotate paint_width paint_height) e5;
              m4 = m3\<lparr>central_op := Some c_op\<rparr>
          in (m4, e6))"

text \<open>
  \<^verbatim>\<open>gimp_mirror_get_operation\<close> returns the node (\<open>None\<close> for \<^verbatim>\<open>NULL\<close>) and the updated
  state. The guard is \<^verbatim>\<open>g_return_val_if_fail (..., NULL)\<close>: it logs and returns \<^verbatim>\<open>NULL\<close>.
\<close>

definition gimp_mirror_get_operation ::
  "gint \<Rightarrow> gint \<Rightarrow> gint \<Rightarrow> 'r GimpMirror \<times> Host
     \<Rightarrow> obj_ref option \<times> 'r GimpMirror \<times> Host" where
  "gimp_mirror_get_operation stroke paint_width paint_height s =
     (case s of (m, e) \<Rightarrow>
        if \<not> (stroke \<ge> 0 \<and> stroke < int (length (strokes m)))
        then (None, m, g_log G_LOG_LEVEL_CRITICAL e)
        else
          (case gimp_mirror_prepare_operations paint_width paint_height (m, e) of
             (m1, e1) \<Rightarrow>
               if disable_transformation m1 \<or> stroke = 0 \<or>
                  paint_width = 0 \<or> paint_height = 0
               then (None, m1, e1)
               else if stroke = 1 \<and> horizontal_mirror m1
               then (case g_object_ref (horizontal_op m1) e1 of (op, e2) \<Rightarrow> (op, m1, e2))
               else if (stroke = 2 \<and> horizontal_mirror m1 \<and> vertical_mirror m1) \<or>
                       (stroke = 1 \<and> vertical_mirror m1 \<and> \<not> horizontal_mirror m1)
               then (case g_object_ref (vertical_op m1) e1 of (op, e2) \<Rightarrow> (op, m1, e2))
               else (case g_object_ref (central_op m1) e1 of (op, e2) \<Rightarrow> (op, m1, e2))))"

subsection \<open>The setters\<close>

text \<open>
  The three setters, branch by branch as in the source. The block that shows a guide
  (create it when there is none, connect, add to the image, connect) and the block that
  hides it (disconnect twice, remove from the image) are written out at each place the
  source has them.
\<close>

definition gimp_mirror_set_horizontal_symmetry ::
  "bool \<Rightarrow> 'r GimpMirror \<times> Host \<Rightarrow> 'r GimpMirror \<times> Host" where
  "gimp_mirror_set_horizontal_symmetry active s =
     (case s of (m, e) \<Rightarrow>
        if active = horizontal_mirror m then (m, e)
        else
          let m1 = m\<lparr>horizontal_mirror := active\<rparr>
          in gimp_mirror_reset
               (if active
                then
                  (case (case horizontal_guide m1 of
                           None \<Rightarrow>
                             let m2 = m1\<lparr>horizontal_position :=
                                          real_of_int (image_height e) / 2\<rparr>;
                                 gid = next_guide_ID e;
                                 (guide, e1) =
                                   gimp_mirror_guide_new GIMP_ORIENTATION_HORIZONTAL gid
                                     (e\<lparr>next_guide_ID := gid + 1\<rparr>)
                             in (guide, m2\<lparr>horizontal_guide := Some guide\<rparr>, e1)
                         | Some guide \<Rightarrow> (guide, m1, e)) of
                     (guide, m3, e2) \<Rightarrow>
                       let e3 = g_signal_connect guide ''removed'' CB_guide_removed e2;
                           (pos, e4) = gint_of_gdouble (horizontal_position m3) e3;
                           (m5, e5) = gimp_image_add_guide guide pos (m3, e4)
                       in (m5, g_signal_connect guide ''notify::position''
                                  CB_guide_position e5))
                else if \<not> point_symmetry m1
                then
                  (let e1 = g_signal_handlers_disconnect_by_func
                                (horizontal_guide m1) CB_guide_removed e;
                       e2 = g_signal_handlers_disconnect_by_func
                                (horizontal_guide m1) CB_guide_position e1
                   in gimp_image_remove_guide (horizontal_guide m1) (m1, e2))
                else (m1, e)))"

definition gimp_mirror_set_vertical_symmetry ::
  "bool \<Rightarrow> 'r GimpMirror \<times> Host \<Rightarrow> 'r GimpMirror \<times> Host" where
  "gimp_mirror_set_vertical_symmetry active s =
     (case s of (m, e) \<Rightarrow>
        if active = vertical_mirror m then (m, e)
        else
          let m1 = m\<lparr>vertical_mirror := active\<rparr>
          in gimp_mirror_reset
               (if active
                then
                  (case (case vertical_guide m1 of
                           None \<Rightarrow>
                             let m2 = m1\<lparr>vertical_position :=
                                          real_of_int (image_width e) / 2\<rparr>;
                                 gid = next_guide_ID e;
                                 (guide, e1) =
                                   gimp_mirror_guide_new GIMP_ORIENTATION_VERTICAL gid
                                     (e\<lparr>next_guide_ID := gid + 1\<rparr>)
                             in (guide, m2\<lparr>vertical_guide := Some guide\<rparr>, e1)
                         | Some guide \<Rightarrow> (guide, m1, e)) of
                     (guide, m3, e2) \<Rightarrow>
                       let e3 = g_signal_connect guide ''removed'' CB_guide_removed e2;
                           (pos, e4) = gint_of_gdouble (vertical_position m3) e3;
                           (m5, e5) = gimp_image_add_guide guide pos (m3, e4)
                       in (m5, g_signal_connect guide ''notify::position''
                                  CB_guide_position e5))
                else if \<not> point_symmetry m1
                then
                  (let e1 = g_signal_handlers_disconnect_by_func
                                (vertical_guide m1) CB_guide_removed e;
                       e2 = g_signal_handlers_disconnect_by_func
                                (vertical_guide m1) CB_guide_position e1
                   in gimp_image_remove_guide (vertical_guide m1) (m1, e2))
                else (m1, e)))"

definition gimp_mirror_set_point_symmetry ::
  "bool \<Rightarrow> 'r GimpMirror \<times> Host \<Rightarrow> 'r GimpMirror \<times> Host" where
  "gimp_mirror_set_point_symmetry active s =
     (case s of (m, e) \<Rightarrow>
        if active = point_symmetry m then (m, e)
        else
          let m1 = m\<lparr>point_symmetry := active\<rparr>
          in gimp_mirror_reset
               (if active
                then
                  (case
                     (if \<not> horizontal_mirror m1
                      then
                        (case (case horizontal_guide m1 of
                                 None \<Rightarrow>
                                   let h_m2 = m1\<lparr>horizontal_position :=
                                                real_of_int (image_height e) / 2\<rparr>;
                                       h_gid = next_guide_ID e;
                                       (h_guide, h_e1) =
                                         gimp_mirror_guide_new GIMP_ORIENTATION_HORIZONTAL h_gid
                                           (e\<lparr>next_guide_ID := h_gid + 1\<rparr>)
                                   in (h_guide, h_m2\<lparr>horizontal_guide := Some h_guide\<rparr>, h_e1)
                               | Some h_guide \<Rightarrow> (h_guide, m1, e)) of
                           (h_guide, h_m3, h_e2) \<Rightarrow>
                             let h_e3 = g_signal_connect h_guide ''removed'' CB_guide_removed h_e2;
                                 (h_pos, h_e4) = gint_of_gdouble (horizontal_position h_m3) h_e3;
                                 (h_m5, h_e5) = gimp_image_add_guide h_guide h_pos (h_m3, h_e4)
                             in (h_m5, g_signal_connect h_guide ''notify::position''
                                        CB_guide_position h_e5))
                      else (m1, e)) of
                     (mh, eh) \<Rightarrow>
                       if \<not> vertical_mirror mh
                       then
                         (case (case vertical_guide mh of
                                  None \<Rightarrow>
                                    let v_m2 = mh\<lparr>vertical_position :=
                                                 real_of_int (image_width eh) / 2\<rparr>;
                                        v_gid = next_guide_ID eh;
                                        (v_guide, v_e1) =
                                          gimp_mirror_guide_new GIMP_ORIENTATION_VERTICAL v_gid
                                            (eh\<lparr>next_guide_ID := v_gid + 1\<rparr>)
                                    in (v_guide, v_m2\<lparr>vertical_guide := Some v_guide\<rparr>, v_e1)
                                | Some v_guide \<Rightarrow> (v_guide, mh, eh)) of
                            (v_guide, v_m3, v_e2) \<Rightarrow>
                              let v_e3 = g_signal_connect v_guide ''removed'' CB_guide_removed v_e2;
                                  (v_pos, v_e4) = gint_of_gdouble (vertical_position v_m3) v_e3;
                                  (v_m5, v_e5) = gimp_image_add_guide v_guide v_pos (v_m3, v_e4)
                              in (v_m5, g_signal_connect v_guide ''notify::position''
                                         CB_guide_position v_e5))
                       else (mh, eh))
                else
                  (case
                     (if \<not> horizontal_mirror m1
                      then
                        (let h_e1 = g_signal_handlers_disconnect_by_func
                                      (horizontal_guide m1) CB_guide_removed e;
                             h_e2 = g_signal_handlers_disconnect_by_func
                                      (horizontal_guide m1) CB_guide_position h_e1
                         in gimp_image_remove_guide (horizontal_guide m1) (m1, h_e2))
                      else (m1, e)) of
                     (mh, eh) \<Rightarrow>
                       if \<not> vertical_mirror mh
                       then
                         (let v_e1 = g_signal_handlers_disconnect_by_func
                                       (vertical_guide mh) CB_guide_removed eh;
                              v_e2 = g_signal_handlers_disconnect_by_func
                                       (vertical_guide mh) CB_guide_position v_e1
                          in gimp_image_remove_guide (vertical_guide mh) (mh, v_e2))
                       else (mh, eh))))"

subsection \<open>The property setter\<close>

datatype property_id =
    PROP_0
  | PROP_HORIZONTAL_SYMMETRY
  | PROP_VERTICAL_SYMMETRY
  | PROP_POINT_SYMMETRY
  | PROP_DISABLE_TRANSFORMATION
  | PROP_HORIZONTAL_POSITION
  | PROP_VERTICAL_POSITION

text \<open>
  A \<^verbatim>\<open>GValue\<close> holds a boolean or a double; GObject passes a value of the type the
  property was installed with. The getters of GLib return \<^verbatim>\<open>FALSE\<close> and \<^verbatim>\<open>0.0\<close> on a
  value of another type.
\<close>

datatype GValue = G_TYPE_BOOLEAN bool | G_TYPE_DOUBLE gdouble

fun g_value_get_boolean :: "GValue \<Rightarrow> bool" where
  "g_value_get_boolean (G_TYPE_BOOLEAN b) = b"
| "g_value_get_boolean (G_TYPE_DOUBLE d) = False"

fun g_value_get_double :: "GValue \<Rightarrow> gdouble" where
  "g_value_get_double (G_TYPE_DOUBLE d) = d"
| "g_value_get_double (G_TYPE_BOOLEAN b) = 0"

text \<open>
  \<^verbatim>\<open>gimp_mirror_set_property\<close>. The position is passed to \<^verbatim>\<open>gimp_guide_set_position\<close>,
  whose parameter is a \<^verbatim>\<open>gint\<close>: the double is converted. The default branch warns.
\<close>

definition gimp_mirror_set_property ::
  "property_id \<Rightarrow> GValue \<Rightarrow> 'r GimpMirror \<times> Host \<Rightarrow> 'r GimpMirror \<times> Host" where
  "gimp_mirror_set_property prop val s =
     (case s of (m, e) \<Rightarrow>
        (case prop of
           PROP_HORIZONTAL_SYMMETRY \<Rightarrow>
             gimp_mirror_set_horizontal_symmetry (g_value_get_boolean val) (m, e)
         | PROP_VERTICAL_SYMMETRY \<Rightarrow>
             gimp_mirror_set_vertical_symmetry (g_value_get_boolean val) (m, e)
         | PROP_POINT_SYMMETRY \<Rightarrow>
             gimp_mirror_set_point_symmetry (g_value_get_boolean val) (m, e)
         | PROP_DISABLE_TRANSFORMATION \<Rightarrow>
             (m\<lparr>disable_transformation := g_value_get_boolean val\<rparr>, e)
         | PROP_HORIZONTAL_POSITION \<Rightarrow>
             let m1 = m\<lparr>horizontal_position := g_value_get_double val\<rparr>
             in (case horizontal_guide m1 of
                   Some guide \<Rightarrow>
                     (case gint_of_gdouble (horizontal_position m1) e of
                        (pos, e1) \<Rightarrow> gimp_guide_set_position guide pos (m1, e1))
                 | None \<Rightarrow> (m1, e))
         | PROP_VERTICAL_POSITION \<Rightarrow>
             let m1 = m\<lparr>vertical_position := g_value_get_double val\<rparr>
             in (case vertical_guide m1 of
                   Some guide \<Rightarrow>
                     (case gint_of_gdouble (vertical_position m1) e of
                        (pos, e1) \<Rightarrow> gimp_guide_set_position guide pos (m1, e1))
                 | None \<Rightarrow> (m1, e))
         | PROP_0 \<Rightarrow> (m, g_log G_LOG_LEVEL_WARNING e)))"

subsection \<open>Predicates and sample states of the statements\<close>

text \<open>
  The operation cache is usable: either it still has the size (0, 0) it is created with,
  or its three operations are the nodes built for the size it records.
\<close>

definition operations_cached :: "'r GimpMirror \<times> Host \<Rightarrow> bool" where
  "operations_cached s =
     (case s of (m, e) \<Rightarrow>
        (last_paint_width m = 0 \<and> last_paint_height m = 0) \<or>
        (case horizontal_op m of
           None \<Rightarrow> False
         | Some a \<Rightarrow> node_heap e a = Some (horizontal_reflect (last_paint_height m))) \<and>
        (case vertical_op m of
           None \<Rightarrow> False
         | Some b \<Rightarrow> node_heap e b = Some (vertical_reflect (last_paint_width m))) \<and>
        (case central_op m of
           None \<Rightarrow> False
         | Some c \<Rightarrow>
             node_heap e c =
               Some (central_rotate (last_paint_width m) (last_paint_height m))))"

text \<open>
  A coordinate whose remaining fields are a pressure and two tilts, and the state of a
  new mirror in an image of 100 by 80.
\<close>

definition sample_coords :: "(real \<times> real \<times> real) GimpCoords" where
  "sample_coords = \<lparr>x = 30, y = 10, rest = (1 / 2, 0, 0)\<rparr>"

definition new_mirror :: "(real \<times> real \<times> real) GimpMirror \<times> Host" where
  "new_mirror = (gimp_mirror_init zeroed_instance, fresh_host 100 80)"

text \<open>
  A mirror with the horizontal and the vertical flag set, the axes at 40 and 50, after the
  origin \<open>sample_coords\<close> has been set.
\<close>

definition sample_m :: "(real \<times> real \<times> real) GimpMirror" where
  "sample_m =
     fst (gimp_multi_stroke_set_origin sample_coords
       ((gimp_mirror_init zeroed_instance)
          \<lparr>horizontal_mirror := True, vertical_mirror := True,
           horizontal_position := 40, vertical_position := 50\<rparr>,
        fresh_host 100 80))"

definition sample_e :: Host where
  "sample_e =
     snd (gimp_multi_stroke_set_origin sample_coords
       ((gimp_mirror_init zeroed_instance :: (real \<times> real \<times> real) GimpMirror)
          \<lparr>horizontal_mirror := True, vertical_mirror := True,
           horizontal_position := 40, vertical_position := 50\<rparr>,
        fresh_host 100 80))"

text \<open>
  States reached from the new mirror through the interface: the origin set; then the
  horizontal flag set; then the horizontal position moved to 20 through the property.
  Also: the origin set, then point symmetry set. And on the new mirror: point symmetry set,
  the horizontal flag set and cleared again, point symmetry cleared.
\<close>

definition origin_set :: "(real \<times> real \<times> real) GimpMirror \<times> Host" where
  "origin_set = gimp_multi_stroke_set_origin sample_coords new_mirror"

definition horizontal_on :: "(real \<times> real \<times> real) GimpMirror \<times> Host" where
  "horizontal_on = gimp_mirror_set_horizontal_symmetry True origin_set"

definition axis_moved :: "(real \<times> real \<times> real) GimpMirror \<times> Host" where
  "axis_moved =
     gimp_mirror_set_property PROP_HORIZONTAL_POSITION (G_TYPE_DOUBLE 20) horizontal_on"

definition point_on :: "(real \<times> real \<times> real) GimpMirror \<times> Host" where
  "point_on = gimp_mirror_set_point_symmetry True origin_set"

definition shown_twice :: "(real \<times> real \<times> real) GimpMirror \<times> Host" where
  "shown_twice =
     gimp_mirror_set_horizontal_symmetry True
       (gimp_mirror_set_point_symmetry True new_mirror)"

definition all_off_again :: "(real \<times> real \<times> real) GimpMirror \<times> Host" where
  "all_off_again =
     gimp_mirror_set_point_symmetry False
       (gimp_mirror_set_horizontal_symmetry False shown_twice)"

section \<open>Properties\<close>

subsection \<open>The stroke deriver\<close>

lemma strokes_update_strokes:
  "strokes (fst (gimp_mirror_update_strokes orig (m, e))) =
     orig #
     (if horizontal_mirror m then [orig\<lparr>y := 2 * horizontal_position m - y orig\<rparr>] else []) @
     (if vertical_mirror m then [orig\<lparr>x := 2 * vertical_position m - x orig\<rparr>] else []) @
     (if point_symmetry m
      then [orig\<lparr>x := 2 * vertical_position m - x orig,
                 y := 2 * horizontal_position m - y orig\<rparr>]
      else [])"
  by (simp add: gimp_mirror_update_strokes_def Let_def)

text \<open>
  C1. For every origin and every combination of the three flags the derived list is the
  origin, then the horizontal mirror image if that flag is set, then the vertical one,
  then the point-symmetric one; its length is one plus the number of set flags, whatever
  the coordinates are, and with no flag set the list is the origin alone.
\<close>

theorem update_strokes_order:
  "strokes (fst (gimp_mirror_update_strokes orig (m, e))) =
     orig #
     (if horizontal_mirror m then [orig\<lparr>y := 2 * horizontal_position m - y orig\<rparr>] else []) @
     (if vertical_mirror m then [orig\<lparr>x := 2 * vertical_position m - x orig\<rparr>] else []) @
     (if point_symmetry m
      then [orig\<lparr>x := 2 * vertical_position m - x orig,
                 y := 2 * horizontal_position m - y orig\<rparr>]
      else [])
   \<and> length (strokes (fst (gimp_mirror_update_strokes orig (m, e)))) =
       1 + (if horizontal_mirror m then 1 else 0) + (if vertical_mirror m then 1 else 0)
         + (if point_symmetry m then 1 else 0)
   \<and> strokes (fst (gimp_mirror_update_strokes orig
        (m\<lparr>horizontal_mirror := False, vertical_mirror := False,
           point_symmetry := False\<rparr>, e))) = [orig]"
  by (simp add: strokes_update_strokes)

text \<open>
  The origin lies on both axes and all flags are set: four coordinates, all equal.
\<close>

theorem update_strokes_order_witness:
  "strokes (fst (gimp_mirror_update_strokes \<lparr>x = 5, y = 5, rest = ()\<rparr>
      (zeroed_instance\<lparr>horizontal_mirror := True, vertical_mirror := True,
          point_symmetry := True, horizontal_position := 5, vertical_position := 5\<rparr>,
       fresh_host 10 10))) =
     [\<lparr>x = 5, y = 5, rest = ()\<rparr>, \<lparr>x = 5, y = 5, rest = ()\<rparr>,
      \<lparr>x = 5, y = 5, rest = ()\<rparr>, \<lparr>x = 5, y = 5, rest = ()\<rparr>]"
  using update_strokes_order [of "\<lparr>x = 5, y = 5, rest = ()\<rparr>"
      "zeroed_instance\<lparr>horizontal_mirror := True, vertical_mirror := True,
          point_symmetry := True, horizontal_position := 5, vertical_position := 5\<rparr>"
      "fresh_host 10 10"]
  by (simp add: zeroed_instance_def)

text \<open>
  C9. Every derived coordinate carries the remaining fields of the origin unchanged.
  The first coordinate is the origin; the horizontal mirror image (at index 1 when that
  flag is set) keeps \<open>x\<close>; the vertical one (next in the list) keeps \<open>y\<close>; the
  point-symmetric one (last) changes \<open>x\<close> and \<open>y\<close> only.
\<close>

theorem update_strokes_other_fields:
  "(\<forall>c \<in> set (strokes (fst (gimp_mirror_update_strokes orig (m, e)))). rest c = rest orig)
   \<and> strokes (fst (gimp_mirror_update_strokes orig (m, e))) ! 0 = orig
   \<and> (horizontal_mirror m \<longrightarrow>
        strokes (fst (gimp_mirror_update_strokes orig (m, e))) ! 1 =
          orig\<lparr>y := 2 * horizontal_position m - y orig\<rparr>
        \<and> x (strokes (fst (gimp_mirror_update_strokes orig (m, e))) ! 1) = x orig)
   \<and> (vertical_mirror m \<longrightarrow>
        strokes (fst (gimp_mirror_update_strokes orig (m, e)))
          ! (if horizontal_mirror m then 2 else 1) =
          orig\<lparr>x := 2 * vertical_position m - x orig\<rparr>
        \<and> y (strokes (fst (gimp_mirror_update_strokes orig (m, e)))
              ! (if horizontal_mirror m then 2 else 1)) = y orig)
   \<and> (point_symmetry m \<longrightarrow>
        strokes (fst (gimp_mirror_update_strokes orig (m, e)))
          ! (1 + (if horizontal_mirror m then 1 else 0)
               + (if vertical_mirror m then 1 else 0)) =
          orig\<lparr>x := 2 * vertical_position m - x orig,
               y := 2 * horizontal_position m - y orig\<rparr>)"
  by (auto simp add: strokes_update_strokes)

theorem update_strokes_other_fields_witness:
  "map rest (strokes (fst (gimp_mirror_update_strokes sample_coords
      (zeroed_instance\<lparr>horizontal_mirror := True, vertical_mirror := True,
          point_symmetry := True, horizontal_position := 40, vertical_position := 50\<rparr>,
       fresh_host 100 80)))) =
     [(1 / 2, 0, 0), (1 / 2, 0, 0), (1 / 2, 0, 0), (1 / 2, 0, 0)]
   \<and> strokes (fst (gimp_mirror_update_strokes sample_coords
      (zeroed_instance\<lparr>horizontal_mirror := True, vertical_mirror := True,
          point_symmetry := True, horizontal_position := 40, vertical_position := 50\<rparr>,
       fresh_host 100 80))) ! 1 = \<lparr>x = 30, y = 70, rest = (1 / 2, 0, 0)\<rparr>
   \<and> strokes (fst (gimp_mirror_update_strokes sample_coords
      (zeroed_instance\<lparr>horizontal_mirror := True, vertical_mirror := True,
          point_symmetry := True, horizontal_position := 40, vertical_position := 50\<rparr>,
       fresh_host 100 80))) ! 2 = \<lparr>x = 70, y = 10, rest = (1 / 2, 0, 0)\<rparr>
   \<and> strokes (fst (gimp_mirror_update_strokes sample_coords
      (zeroed_instance\<lparr>horizontal_mirror := True, vertical_mirror := True,
          point_symmetry := True, horizontal_position := 40, vertical_position := 50\<rparr>,
       fresh_host 100 80))) ! 3 = \<lparr>x = 70, y = 70, rest = (1 / 2, 0, 0)\<rparr>"
  using update_strokes_other_fields [of sample_coords
      "zeroed_instance\<lparr>horizontal_mirror := True, vertical_mirror := True,
          point_symmetry := True, horizontal_position := 40, vertical_position := 50\<rparr>"
      "fresh_host 100 80"]
  by (simp add: zeroed_instance_def sample_coords_def strokes_update_strokes)

subsection \<open>The operation cache\<close>

lemma unref_if_set_frame [simp]:
  "node_heap (unref_if_set p e) = node_heap e"
  "next_ref (unref_if_set p e) = next_ref e"
  by (simp_all add: unref_if_set_def g_object_unref_def split: option.splits)

lemma prepare_hit:
  "paint_width = last_paint_width m \<Longrightarrow> paint_height = last_paint_height m \<Longrightarrow>
   gimp_mirror_prepare_operations paint_width paint_height (m, e) = (m, e)"
  by (simp add: gimp_mirror_prepare_operations_def)

lemma prepare_miss:
  assumes "\<not> (paint_width = last_paint_width m \<and> paint_height = last_paint_height m)"
  shows "fst (gimp_mirror_prepare_operations paint_width paint_height (m, e)) =
     m\<lparr>last_paint_width := paint_width, last_paint_height := paint_height,
        horizontal_op := Some (next_ref e),
        vertical_op := Some (Suc (next_ref e)),
        central_op := Some (Suc (Suc (next_ref e)))\<rparr>"
    and "node_heap (snd (gimp_mirror_prepare_operations paint_width paint_height (m, e))) =
     (node_heap e)
        (next_ref e \<mapsto> horizontal_reflect paint_height,
         Suc (next_ref e) \<mapsto> vertical_reflect paint_width,
         Suc (Suc (next_ref e)) \<mapsto> central_rotate paint_width paint_height)"
    and "next_ref (snd (gimp_mirror_prepare_operations paint_width paint_height (m, e))) =
     Suc (Suc (Suc (next_ref e)))"
  using assms
  by (auto simp add: gimp_mirror_prepare_operations_def Let_def gegl_node_new_child_def)

lemma prepare_keeps [simp]:
  "disable_transformation (fst (gimp_mirror_prepare_operations w h (m, e))) =
     disable_transformation m"
  "horizontal_mirror (fst (gimp_mirror_prepare_operations w h (m, e))) = horizontal_mirror m"
  "vertical_mirror (fst (gimp_mirror_prepare_operations w h (m, e))) = vertical_mirror m"
  "point_symmetry (fst (gimp_mirror_prepare_operations w h (m, e))) = point_symmetry m"
  "strokes (fst (gimp_mirror_prepare_operations w h (m, e))) = strokes m"
  "last_paint_width (fst (gimp_mirror_prepare_operations w h (m, e))) = w"
  "last_paint_height (fst (gimp_mirror_prepare_operations w h (m, e))) = h"
  by (cases "w = last_paint_width m \<and> h = last_paint_height m";
      simp add: prepare_hit prepare_miss(1))+

lemma prepare_establishes_cache:
  assumes "operations_cached (m, e)" and "w \<noteq> 0 \<or> h \<noteq> 0"
  shows "case gimp_mirror_prepare_operations w h (m, e) of
           (m1, e1) \<Rightarrow>
             (case horizontal_op m1 of None \<Rightarrow> False
              | Some a \<Rightarrow> node_heap e1 a = Some (horizontal_reflect h)) \<and>
             (case vertical_op m1 of None \<Rightarrow> False
              | Some b \<Rightarrow> node_heap e1 b = Some (vertical_reflect w)) \<and>
             (case central_op m1 of None \<Rightarrow> False
              | Some c \<Rightarrow> node_heap e1 c = Some (central_rotate w h))"
proof (cases "w = last_paint_width m \<and> h = last_paint_height m")
  case True
  with assms show ?thesis
    by (auto simp add: prepare_hit operations_cached_def)
next
  case False
  then show ?thesis
    using prepare_miss [OF False, of e]
    by (simp add: split_beta)
qed

subsection \<open>The selector\<close>

lemma get_operation_invalid:
  "\<not> (0 \<le> stroke \<and> stroke < int (length (strokes m))) \<Longrightarrow>
   gimp_mirror_get_operation stroke w h (m, e) = (None, m, g_log G_LOG_LEVEL_CRITICAL e)"
  by (auto simp add: gimp_mirror_get_operation_def)

text \<open>
  C3. The selector returns no operation whenever the transformation is disabled, or the
  index is 0, or the width is 0, or the height is 0: for every index, every size and every
  combination of the flags.
\<close>

theorem get_operation_identity:
  "disable_transformation m \<or> stroke = 0 \<or> w = 0 \<or> h = 0 \<Longrightarrow>
   fst (gimp_mirror_get_operation stroke w h (m, e)) = None"
  by (auto simp add: gimp_mirror_get_operation_def split_beta)

lemma sample_m_fields:
  "strokes sample_m =
     [\<lparr>x = 30, y = 10, rest = (1 / 2, 0, 0)\<rparr>, \<lparr>x = 30, y = 70, rest = (1 / 2, 0, 0)\<rparr>,
      \<lparr>x = 70, y = 10, rest = (1 / 2, 0, 0)\<rparr>]"
  "horizontal_mirror sample_m" "vertical_mirror sample_m"
  "\<not> point_symmetry sample_m"
  "\<not> disable_transformation sample_m"
  "last_paint_width sample_m = 0" "last_paint_height sample_m = 0"
  "horizontal_position sample_m = 40" "vertical_position sample_m = 50"
  "origin sample_m = Some sample_coords"
  "next_ref sample_e = 0"
  by (simp_all add: sample_m_def sample_e_def gimp_multi_stroke_set_origin_def
      gimp_mirror_update_strokes_def Let_def gimp_mirror_init_def zeroed_instance_def
      sample_coords_def fresh_host_def)

lemma sample_cached: "operations_cached (sample_m, sample_e)"
  by (simp add: operations_cached_def sample_m_fields)

lemma sample_prepared:
  "fst (gimp_mirror_prepare_operations 20 30 (sample_m, sample_e)) =
     sample_m\<lparr>last_paint_width := 20, last_paint_height := 30,
        horizontal_op := Some 0, vertical_op := Some 1, central_op := Some 2\<rparr>"
  using prepare_miss(1) [of 20 sample_m 30 sample_e]
  by (simp add: sample_m_fields)

theorem get_operation_identity_witness:
  "fst (gimp_mirror_get_operation 0 20 30 (sample_m, sample_e)) = None \<and>
   fst (gimp_mirror_get_operation 1 0 30 (sample_m, sample_e)) = None \<and>
   fst (gimp_mirror_get_operation 1 20 0 (sample_m, sample_e)) = None \<and>
   fst (gimp_mirror_get_operation 1 20 30
     (sample_m\<lparr>disable_transformation := True\<rparr>, sample_e)) = None"
  using get_operation_identity [of sample_m 0 20 30 sample_e]
    get_operation_identity [of sample_m 1 0 30 sample_e]
    get_operation_identity [of sample_m 1 20 0 sample_e]
    get_operation_identity [of "sample_m\<lparr>disable_transformation := True\<rparr>" 1 20 30 sample_e]
  by simp

lemma g_object_ref_Some:
  "g_object_ref (Some r) e =
     (Some r, e\<lparr>ref_count := (ref_count e)(r := Suc (ref_count e r))\<rparr>)"
  by (simp add: g_object_ref_def)

text \<open>The three operations are pairwise different nodes, for all sizes.\<close>

lemma node_distinct:
  "horizontal_reflect h \<noteq> vertical_reflect w"
  "horizontal_reflect h \<noteq> central_rotate w h'"
  "vertical_reflect w \<noteq> central_rotate w' h"
  by (simp_all add: horizontal_reflect_def vertical_reflect_def central_rotate_def)

lemma get_operation_valid:
  assumes cached: "operations_cached (m, e)"
    and idx: "0 < stroke" "stroke < int (length (strokes m))"
    and on: "\<not> disable_transformation m" "w \<noteq> 0" "h \<noteq> 0"
  shows "\<exists>r m' e'. gimp_mirror_get_operation stroke w h (m, e) = (Some r, m', e') \<and>
           node_heap e' r = Some
             (if stroke = 1 \<and> horizontal_mirror m then horizontal_reflect h
              else if (stroke = 2 \<and> horizontal_mirror m \<and> vertical_mirror m) \<or>
                      (stroke = 1 \<and> vertical_mirror m \<and> \<not> horizontal_mirror m)
              then vertical_reflect w
              else central_rotate w h)"
proof -
  obtain m1 e1 where p: "gimp_mirror_prepare_operations w h (m, e) = (m1, e1)"
    by (cases "gimp_mirror_prepare_operations w h (m, e)")
  from prepare_establishes_cache [OF cached, of w h] on p
  obtain a b c where ops:
    "horizontal_op m1 = Some a" "node_heap e1 a = Some (horizontal_reflect h)"
    "vertical_op m1 = Some b" "node_heap e1 b = Some (vertical_reflect w)"
    "central_op m1 = Some c" "node_heap e1 c = Some (central_rotate w h)"
    by (auto split: option.splits)
  have flags: "horizontal_mirror m1 = horizontal_mirror m"
    "vertical_mirror m1 = vertical_mirror m"
    "disable_transformation m1 = disable_transformation m"
    using prepare_keeps [of w h m e] p by simp_all
  show ?thesis
    using idx on
    by (simp add: gimp_mirror_get_operation_def p ops flags g_object_ref_Some)
qed


text \<open>
  C2. For a valid index above 0, with the transformation enabled and a width and a height
  other than 0, and with a usable cache, the selector returns a node, which is the
  horizontal reflection when the index is 1 and the horizontal flag is set, the vertical
  reflection when the index is 2 and both axis flags are set or the index is 1 and only the
  vertical flag of the two is set, and the rotation otherwise. Whenever the stroke list is
  the one the deriver produces under the current flags, the coordinate at that index is
  the mirror image of the kind the returned node has, for every combination of the flags.
\<close>

theorem get_operation_positional:
  assumes cached: "operations_cached (m, e)"
    and idx: "0 < stroke" "stroke < int (length (strokes m))"
    and on: "\<not> disable_transformation m" "w \<noteq> 0" "h \<noteq> 0"
  shows "case gimp_mirror_get_operation stroke w h (m, e) of
           (op, m', e') \<Rightarrow>
             (case op of
                None \<Rightarrow> False
              | Some r \<Rightarrow>
                  node_heap e' r = Some
                    (if stroke = 1 \<and> horizontal_mirror m then horizontal_reflect h
                     else if (stroke = 2 \<and> horizontal_mirror m \<and> vertical_mirror m) \<or>
                             (stroke = 1 \<and> vertical_mirror m \<and> \<not> horizontal_mirror m)
                     then vertical_reflect w
                     else central_rotate w h) \<and>
                  (strokes m = strokes (fst (gimp_mirror_update_strokes orig (m, e))) \<longrightarrow>
                     (node_heap e' r = Some (horizontal_reflect h) \<and>
                      strokes m ! nat stroke =
                        orig\<lparr>y := 2 * horizontal_position m - y orig\<rparr>) \<or>
                     (node_heap e' r = Some (vertical_reflect w) \<and>
                      strokes m ! nat stroke =
                        orig\<lparr>x := 2 * vertical_position m - x orig\<rparr>) \<or>
                     (node_heap e' r = Some (central_rotate w h) \<and>
                      strokes m ! nat stroke =
                        orig\<lparr>x := 2 * vertical_position m - x orig,
                             y := 2 * horizontal_position m - y orig\<rparr>)))"
proof -
  from get_operation_valid [OF cached idx on]
  obtain r m' e' where
    g: "gimp_mirror_get_operation stroke w h (m, e) = (Some r, m', e')" and
    n: "node_heap e' r = Some
          (if stroke = 1 \<and> horizontal_mirror m then horizontal_reflect h
           else if (stroke = 2 \<and> horizontal_mirror m \<and> vertical_mirror m) \<or>
                   (stroke = 1 \<and> vertical_mirror m \<and> \<not> horizontal_mirror m)
           then vertical_reflect w
           else central_rotate w h)"
    by blast
  have agree:
    "(node_heap e' r = Some (horizontal_reflect h) \<and>
      strokes m ! nat stroke = orig\<lparr>y := 2 * horizontal_position m - y orig\<rparr>) \<or>
     (node_heap e' r = Some (vertical_reflect w) \<and>
      strokes m ! nat stroke = orig\<lparr>x := 2 * vertical_position m - x orig\<rparr>) \<or>
     (node_heap e' r = Some (central_rotate w h) \<and>
      strokes m ! nat stroke =
        orig\<lparr>x := 2 * vertical_position m - x orig,
             y := 2 * horizontal_position m - y orig\<rparr>)"
    if eq: "strokes m = strokes (fst (gimp_mirror_update_strokes orig (m, e)))"
  proof -
    note l = eq [unfolded strokes_update_strokes]
    have "stroke = 1 \<or> stroke = 2 \<or> stroke = 3"
      using idx by (auto simp add: l split: if_splits)
    then show ?thesis
      using idx n by (auto simp add: l split: if_splits)
  qed
  show ?thesis
    using g n agree by simp
qed


theorem get_operation_positional_witness:
  "fst (gimp_mirror_get_operation 2 20 30 (sample_m, sample_e)) = Some 1 \<and>
   node_heap (snd (snd (gimp_mirror_get_operation 2 20 30 (sample_m, sample_e)))) 1 =
     Some (vertical_reflect 20) \<and>
   strokes sample_m ! 2 = sample_coords\<lparr>x := 70\<rparr>"
proof -
  have r: "fst (gimp_mirror_get_operation 2 20 30 (sample_m, sample_e)) = Some 1"
    by (simp add: gimp_mirror_get_operation_def split_beta sample_prepared sample_m_fields
        g_object_ref_Some)
  have n: "node_heap (snd (snd (gimp_mirror_get_operation 2 20 30 (sample_m, sample_e)))) 1 =
     Some (vertical_reflect 20)"
    using get_operation_positional [OF sample_cached, of 2 20 30 sample_coords] r
    by (simp add: sample_m_fields split_beta)
  have s: "strokes sample_m ! 2 = sample_coords\<lparr>x := 70\<rparr>"
    by (simp add: sample_m_fields sample_coords_def)
  show ?thesis
    using r n s by simp
qed

text \<open>
  C4 (as amended). An index below 0 or not below the length of the stroke list makes the
  selector log a critical message and return no operation, which is also what it returns
  for the identity; the mirror and the operation cache are left as they were. Nothing is
  aborted.
\<close>

theorem get_operation_out_of_range:
  "stroke < 0 \<or> int (length (strokes m)) \<le> stroke \<Longrightarrow>
   gimp_mirror_get_operation stroke w h (m, e) = (None, m, g_log G_LOG_LEVEL_CRITICAL e)"
  by (rule get_operation_invalid) auto

theorem get_operation_out_of_range_witness:
  "gimp_mirror_get_operation 3 20 30 (sample_m, sample_e) =
     (None, sample_m, g_log G_LOG_LEVEL_CRITICAL sample_e) \<and>
   gimp_mirror_get_operation (- 1) 20 30 (sample_m, sample_e) =
     (None, sample_m, g_log G_LOG_LEVEL_CRITICAL sample_e)"
  using get_operation_out_of_range [of 3 sample_m 20 30 sample_e]
    get_operation_out_of_range [of "- 1" sample_m 20 30 sample_e]
  by (simp add: sample_m_fields)

text \<open>
  The claim as stated fails: with three strokes, index 3 is answered like index 0, the
  mirror is unchanged, and the next call with index 2 gets its operation.
\<close>

theorem get_operation_out_of_range_counterexample:
  "fst (gimp_mirror_get_operation 3 20 30 (sample_m, sample_e)) = None \<and>
   fst (gimp_mirror_get_operation 3 20 30 (sample_m, sample_e)) =
     fst (gimp_mirror_get_operation 0 20 30 (sample_m, sample_e)) \<and>
   fst (snd (gimp_mirror_get_operation 3 20 30 (sample_m, sample_e))) = sample_m \<and>
   fst (gimp_mirror_get_operation 2 20 30
          (snd (gimp_mirror_get_operation 3 20 30 (sample_m, sample_e)))) = Some 1"
proof -
  have a: "gimp_mirror_get_operation 3 20 30 (sample_m, sample_e) =
      (None, sample_m, g_log G_LOG_LEVEL_CRITICAL sample_e)"
    by (rule get_operation_invalid) (simp add: sample_m_fields)
  have b: "fst (gimp_mirror_get_operation 0 20 30 (sample_m, sample_e)) = None"
    by (simp add: gimp_mirror_get_operation_def split_beta)
  have c: "fst (gimp_mirror_prepare_operations 20 30
        (sample_m, g_log G_LOG_LEVEL_CRITICAL sample_e)) =
     sample_m\<lparr>last_paint_width := 20, last_paint_height := 30,
        horizontal_op := Some 0, vertical_op := Some 1, central_op := Some 2\<rparr>"
    using prepare_miss(1) [of 20 sample_m 30 "g_log G_LOG_LEVEL_CRITICAL sample_e"]
    by (simp add: sample_m_fields g_log_def)
  have d: "fst (gimp_mirror_get_operation 2 20 30
      (sample_m, g_log G_LOG_LEVEL_CRITICAL sample_e)) = Some 1"
    by (simp add: gimp_mirror_get_operation_def split_beta c sample_m_fields
        g_object_ref_Some)
  show ?thesis
    by (simp add: a b d)
qed

text \<open>
  C7. With the size the cache records, \<^verbatim>\<open>gimp_mirror_prepare_operations\<close> changes nothing,
  so the three operations stay the very same objects; with another size it records the
  new size and makes the three operations newly created nodes for that size. A second call
  with the same size is always without effect.
\<close>

theorem prepare_operations_cache:
  "(w = last_paint_width m \<and> h = last_paint_height m \<longrightarrow>
      gimp_mirror_prepare_operations w h (m, e) = (m, e))
   \<and> (\<not> (w = last_paint_width m \<and> h = last_paint_height m) \<longrightarrow>
       (case gimp_mirror_prepare_operations w h (m, e) of
          (m', e') \<Rightarrow>
            last_paint_width m' = w \<and> last_paint_height m' = h \<and>
            horizontal_op m' = Some (next_ref e) \<and>
            vertical_op m' = Some (Suc (next_ref e)) \<and>
            central_op m' = Some (Suc (Suc (next_ref e))) \<and>
            node_heap e' (next_ref e) = Some (horizontal_reflect h) \<and>
            node_heap e' (Suc (next_ref e)) = Some (vertical_reflect w) \<and>
            node_heap e' (Suc (Suc (next_ref e))) = Some (central_rotate w h) \<and>
            next_ref e' = next_ref e + 3))
   \<and> gimp_mirror_prepare_operations w h (gimp_mirror_prepare_operations w h (m, e)) =
       gimp_mirror_prepare_operations w h (m, e)"
proof (intro conjI impI)
  assume "w = last_paint_width m \<and> h = last_paint_height m"
  then show "gimp_mirror_prepare_operations w h (m, e) = (m, e)"
    by (simp add: prepare_hit)
next
  assume miss: "\<not> (w = last_paint_width m \<and> h = last_paint_height m)"
  show "case gimp_mirror_prepare_operations w h (m, e) of
          (m', e') \<Rightarrow>
            last_paint_width m' = w \<and> last_paint_height m' = h \<and>
            horizontal_op m' = Some (next_ref e) \<and>
            vertical_op m' = Some (Suc (next_ref e)) \<and>
            central_op m' = Some (Suc (Suc (next_ref e))) \<and>
            node_heap e' (next_ref e) = Some (horizontal_reflect h) \<and>
            node_heap e' (Suc (next_ref e)) = Some (vertical_reflect w) \<and>
            node_heap e' (Suc (Suc (next_ref e))) = Some (central_rotate w h) \<and>
            next_ref e' = next_ref e + 3"
    using prepare_miss [OF miss, of e]
    by (simp add: split_beta)
next
  obtain m1 e1 where p: "gimp_mirror_prepare_operations w h (m, e) = (m1, e1)"
    by (cases "gimp_mirror_prepare_operations w h (m, e)")
  have "last_paint_width m1 = w" "last_paint_height m1 = h"
    using prepare_keeps(6,7) [of w h m e] p by simp_all
  then show "gimp_mirror_prepare_operations w h (gimp_mirror_prepare_operations w h (m, e)) =
      gimp_mirror_prepare_operations w h (m, e)"
    by (simp add: p prepare_hit)
qed

theorem prepare_operations_cache_witness:
  "gimp_mirror_prepare_operations 0 0 (sample_m, sample_e) = (sample_m, sample_e) \<and>
   horizontal_op (fst (gimp_mirror_prepare_operations 20 30 (sample_m, sample_e))) = Some 0 \<and>
   vertical_op (fst (gimp_mirror_prepare_operations 20 30 (sample_m, sample_e))) = Some 1 \<and>
   central_op (fst (gimp_mirror_prepare_operations 20 30 (sample_m, sample_e))) = Some 2 \<and>
   node_heap (snd (gimp_mirror_prepare_operations 20 30 (sample_m, sample_e))) 2 =
     Some (central_rotate 20 30)"
  using prepare_operations_cache [of 0 sample_m 0 sample_e]
    prepare_operations_cache [of 20 sample_m 30 sample_e]
  by (simp add: sample_m_fields split_beta numeral_2_eq_2)

subsection \<open>Reset\<close>

lemma update_strokes_eq:
  "gimp_mirror_update_strokes orig (m, e) =
     (m\<lparr>strokes := strokes (fst (gimp_mirror_update_strokes orig (m, e)))\<rparr>,
      e\<lparr>strokes_updated := Suc (strokes_updated e)\<rparr>)"
  by (simp add: gimp_mirror_update_strokes_def Let_def)

lemma strokes_update_strokes_state:
  "strokes (fst (gimp_mirror_update_strokes orig s)) =
     orig #
     (if horizontal_mirror (fst s)
      then [orig\<lparr>y := 2 * horizontal_position (fst s) - y orig\<rparr>] else []) @
     (if vertical_mirror (fst s)
      then [orig\<lparr>x := 2 * vertical_position (fst s) - x orig\<rparr>] else []) @
     (if point_symmetry (fst s)
      then [orig\<lparr>x := 2 * vertical_position (fst s) - x orig,
                 y := 2 * horizontal_position (fst s) - y orig\<rparr>]
      else [])"
  by (cases s) (simp add: strokes_update_strokes)

lemma reset_Some:
  "origin m = Some orig \<Longrightarrow>
   gimp_mirror_reset (m, e) = gimp_mirror_update_strokes orig (m, e)"
proof -
  assume a: "origin m = Some orig"
  then have b: "m\<lparr>origin := Some orig\<rparr> = m" by simp
  show ?thesis
    by (simp add: gimp_mirror_reset_def gimp_multi_stroke_set_origin_def a b)
qed

lemma reset_None:
  "origin m = None \<Longrightarrow> gimp_mirror_reset (m, e) = (m, e)"
  by (simp add: gimp_mirror_reset_def)

text \<open>\<^verbatim>\<open>gimp_mirror_reset\<close> changes the stroke list and the signal count only.\<close>

lemma reset_frame:
  "\<exists>l n. gimp_mirror_reset (m, e) = (m\<lparr>strokes := l\<rparr>, e\<lparr>strokes_updated := n\<rparr>)"
proof (cases "origin m")
  case None
  have "(m, e) = (m\<lparr>strokes := strokes m\<rparr>, e\<lparr>strokes_updated := strokes_updated e\<rparr>)"
    by simp
  with None show ?thesis
    unfolding reset_None [OF None] by blast
next
  case (Some orig)
  show ?thesis
    unfolding reset_Some [OF Some]
    using update_strokes_eq [of orig m e] by blast
qed

lemma reset_keeps [simp]:
  "horizontal_mirror (fst (gimp_mirror_reset s)) = horizontal_mirror (fst s)"
  "vertical_mirror (fst (gimp_mirror_reset s)) = vertical_mirror (fst s)"
  "point_symmetry (fst (gimp_mirror_reset s)) = point_symmetry (fst s)"
  "disable_transformation (fst (gimp_mirror_reset s)) = disable_transformation (fst s)"
  "horizontal_position (fst (gimp_mirror_reset s)) = horizontal_position (fst s)"
  "vertical_position (fst (gimp_mirror_reset s)) = vertical_position (fst s)"
  "horizontal_guide (fst (gimp_mirror_reset s)) = horizontal_guide (fst s)"
  "vertical_guide (fst (gimp_mirror_reset s)) = vertical_guide (fst s)"
  "origin (fst (gimp_mirror_reset s)) = origin (fst s)"
  "image_guides (snd (gimp_mirror_reset s)) = image_guides (snd s)"
  "next_ref (snd (gimp_mirror_reset s)) = next_ref (snd s)"
  "ref_count (snd (gimp_mirror_reset s)) = ref_count (snd s)"
  "guide_heap (snd (gimp_mirror_reset s)) = guide_heap (snd s)"
  "handlers (snd (gimp_mirror_reset s)) = handlers (snd s)"
  "remove_multi_stroke_calls (snd (gimp_mirror_reset s)) = remove_multi_stroke_calls (snd s)"
  "mirror_installed (snd (gimp_mirror_reset s)) = mirror_installed (snd s)"
  using reset_frame [of "fst s" "snd s"] by auto

lemma reset_keeps_cache [simp]:
  "last_paint_width (fst (gimp_mirror_reset s)) = last_paint_width (fst s)"
  "last_paint_height (fst (gimp_mirror_reset s)) = last_paint_height (fst s)"
  "horizontal_op (fst (gimp_mirror_reset s)) = horizontal_op (fst s)"
  "vertical_op (fst (gimp_mirror_reset s)) = vertical_op (fst s)"
  "central_op (fst (gimp_mirror_reset s)) = central_op (fst s)"
  "node_heap (snd (gimp_mirror_reset s)) = node_heap (snd s)"
  using reset_frame [of "fst s" "snd s"] by auto

lemma reset_strokes:
  "strokes (fst (gimp_mirror_reset s)) =
     (case origin (fst s) of
        None \<Rightarrow> strokes (fst s)
      | Some orig \<Rightarrow> strokes (fst (gimp_mirror_update_strokes orig s)))"
  "strokes_updated (snd (gimp_mirror_reset s)) =
     (case origin (fst s) of
        None \<Rightarrow> strokes_updated (snd s)
      | Some orig \<Rightarrow> Suc (strokes_updated (snd s)))"
  by (cases s; cases "origin (fst s)";
      simp add: reset_None reset_Some gimp_mirror_update_strokes_def Let_def)+

lemma reset_result:
  "strokes (fst (gimp_mirror_reset X)) =
     (case origin (fst X) of
        None \<Rightarrow> strokes (fst X)
      | Some orig \<Rightarrow> strokes (fst (gimp_mirror_update_strokes orig (gimp_mirror_reset X))))"
  by (simp add: reset_strokes strokes_update_strokes_state split: option.splits)

subsection \<open>The host functions: what they change\<close>

lemma position_cb_frame [simp]:
  "strokes (fst (gimp_mirror_guide_position_cb g s)) = strokes (fst s)"
  "origin (fst (gimp_mirror_guide_position_cb g s)) = origin (fst s)"
  "horizontal_mirror (fst (gimp_mirror_guide_position_cb g s)) = horizontal_mirror (fst s)"
  "vertical_mirror (fst (gimp_mirror_guide_position_cb g s)) = vertical_mirror (fst s)"
  "point_symmetry (fst (gimp_mirror_guide_position_cb g s)) = point_symmetry (fst s)"
  "disable_transformation (fst (gimp_mirror_guide_position_cb g s)) = disable_transformation (fst s)"
  "horizontal_guide (fst (gimp_mirror_guide_position_cb g s)) = horizontal_guide (fst s)"
  "vertical_guide (fst (gimp_mirror_guide_position_cb g s)) = vertical_guide (fst s)"
  "horizontal_op (fst (gimp_mirror_guide_position_cb g s)) = horizontal_op (fst s)"
  "vertical_op (fst (gimp_mirror_guide_position_cb g s)) = vertical_op (fst s)"
  "central_op (fst (gimp_mirror_guide_position_cb g s)) = central_op (fst s)"
  "last_paint_width (fst (gimp_mirror_guide_position_cb g s)) = last_paint_width (fst s)"
  "last_paint_height (fst (gimp_mirror_guide_position_cb g s)) = last_paint_height (fst s)"
  "snd (gimp_mirror_guide_position_cb g s) = snd s"
  by (cases s; simp add: gimp_mirror_guide_position_cb_def split: option.splits)+

lemma set_position_frame [simp]:
  "strokes (fst (gimp_guide_set_position g pos s)) = strokes (fst s)"
  "origin (fst (gimp_guide_set_position g pos s)) = origin (fst s)"
  "horizontal_mirror (fst (gimp_guide_set_position g pos s)) = horizontal_mirror (fst s)"
  "vertical_mirror (fst (gimp_guide_set_position g pos s)) = vertical_mirror (fst s)"
  "point_symmetry (fst (gimp_guide_set_position g pos s)) = point_symmetry (fst s)"
  "disable_transformation (fst (gimp_guide_set_position g pos s)) = disable_transformation (fst s)"
  "horizontal_guide (fst (gimp_guide_set_position g pos s)) = horizontal_guide (fst s)"
  "vertical_guide (fst (gimp_guide_set_position g pos s)) = vertical_guide (fst s)"
  "horizontal_op (fst (gimp_guide_set_position g pos s)) = horizontal_op (fst s)"
  "vertical_op (fst (gimp_guide_set_position g pos s)) = vertical_op (fst s)"
  "central_op (fst (gimp_guide_set_position g pos s)) = central_op (fst s)"
  "last_paint_width (fst (gimp_guide_set_position g pos s)) = last_paint_width (fst s)"
  "last_paint_height (fst (gimp_guide_set_position g pos s)) = last_paint_height (fst s)"
  "image_width (snd (gimp_guide_set_position g pos s)) = image_width (snd s)"
  "image_height (snd (gimp_guide_set_position g pos s)) = image_height (snd s)"
  "image_guides (snd (gimp_guide_set_position g pos s)) = image_guides (snd s)"
  "mirror_installed (snd (gimp_guide_set_position g pos s)) = mirror_installed (snd s)"
  "remove_multi_stroke_calls (snd (gimp_guide_set_position g pos s)) = remove_multi_stroke_calls (snd s)"
  "next_guide_ID (snd (gimp_guide_set_position g pos s)) = next_guide_ID (snd s)"
  "node_heap (snd (gimp_guide_set_position g pos s)) = node_heap (snd s)"
  "ref_count (snd (gimp_guide_set_position g pos s)) = ref_count (snd s)"
  "next_ref (snd (gimp_guide_set_position g pos s)) = next_ref (snd s)"
  "handlers (snd (gimp_guide_set_position g pos s)) = handlers (snd s)"
  "glib_log (snd (gimp_guide_set_position g pos s)) = glib_log (snd s)"
  "strokes_updated (snd (gimp_guide_set_position g pos s)) = strokes_updated (snd s)"
  "out_of_range_gint (snd (gimp_guide_set_position g pos s)) = out_of_range_gint (snd s)"
  "undefined_conversions (snd (gimp_guide_set_position g pos s)) = undefined_conversions (snd s)"
  by (cases s; simp add: gimp_guide_set_position_def Let_def)+

lemma add_guide_frame [simp]:
  "strokes (fst (gimp_image_add_guide g pos s)) = strokes (fst s)"
  "origin (fst (gimp_image_add_guide g pos s)) = origin (fst s)"
  "horizontal_mirror (fst (gimp_image_add_guide g pos s)) = horizontal_mirror (fst s)"
  "vertical_mirror (fst (gimp_image_add_guide g pos s)) = vertical_mirror (fst s)"
  "point_symmetry (fst (gimp_image_add_guide g pos s)) = point_symmetry (fst s)"
  "disable_transformation (fst (gimp_image_add_guide g pos s)) = disable_transformation (fst s)"
  "horizontal_guide (fst (gimp_image_add_guide g pos s)) = horizontal_guide (fst s)"
  "vertical_guide (fst (gimp_image_add_guide g pos s)) = vertical_guide (fst s)"
  "horizontal_op (fst (gimp_image_add_guide g pos s)) = horizontal_op (fst s)"
  "vertical_op (fst (gimp_image_add_guide g pos s)) = vertical_op (fst s)"
  "central_op (fst (gimp_image_add_guide g pos s)) = central_op (fst s)"
  "last_paint_width (fst (gimp_image_add_guide g pos s)) = last_paint_width (fst s)"
  "last_paint_height (fst (gimp_image_add_guide g pos s)) = last_paint_height (fst s)"
  "image_width (snd (gimp_image_add_guide g pos s)) = image_width (snd s)"
  "image_height (snd (gimp_image_add_guide g pos s)) = image_height (snd s)"
  "mirror_installed (snd (gimp_image_add_guide g pos s)) = mirror_installed (snd s)"
  "remove_multi_stroke_calls (snd (gimp_image_add_guide g pos s)) = remove_multi_stroke_calls (snd s)"
  "next_guide_ID (snd (gimp_image_add_guide g pos s)) = next_guide_ID (snd s)"
  "node_heap (snd (gimp_image_add_guide g pos s)) = node_heap (snd s)"
  "ref_count (snd (gimp_image_add_guide g pos s)) = ref_count (snd s)"
  "next_ref (snd (gimp_image_add_guide g pos s)) = next_ref (snd s)"
  "handlers (snd (gimp_image_add_guide g pos s)) = handlers (snd s)"
  "glib_log (snd (gimp_image_add_guide g pos s)) = glib_log (snd s)"
  "strokes_updated (snd (gimp_image_add_guide g pos s)) = strokes_updated (snd s)"
  "out_of_range_gint (snd (gimp_image_add_guide g pos s)) = out_of_range_gint (snd s)"
  "undefined_conversions (snd (gimp_image_add_guide g pos s)) = undefined_conversions (snd s)"
  "image_guides (snd (gimp_image_add_guide g pos s)) = g # image_guides (snd s)"
  by (cases s; simp add: gimp_image_add_guide_def)+

lemma gint_of_gdouble_frame [simp]:
  "image_width (snd (gint_of_gdouble d e)) = image_width e"
  "image_height (snd (gint_of_gdouble d e)) = image_height e"
  "image_guides (snd (gint_of_gdouble d e)) = image_guides e"
  "mirror_installed (snd (gint_of_gdouble d e)) = mirror_installed e"
  "remove_multi_stroke_calls (snd (gint_of_gdouble d e)) = remove_multi_stroke_calls e"
  "next_guide_ID (snd (gint_of_gdouble d e)) = next_guide_ID e"
  "guide_heap (snd (gint_of_gdouble d e)) = guide_heap e"
  "node_heap (snd (gint_of_gdouble d e)) = node_heap e"
  "ref_count (snd (gint_of_gdouble d e)) = ref_count e"
  "next_ref (snd (gint_of_gdouble d e)) = next_ref e"
  "handlers (snd (gint_of_gdouble d e)) = handlers e"
  "glib_log (snd (gint_of_gdouble d e)) = glib_log e"
  "strokes_updated (snd (gint_of_gdouble d e)) = strokes_updated e"
  "out_of_range_gint (snd (gint_of_gdouble d e)) = out_of_range_gint e"
  by (simp_all add: gint_of_gdouble_def Let_def)

lemma host_ops_frame [simp]:
  "image_width (g_log l e) = image_width e"
  "image_height (g_log l e) = image_height e"
  "image_guides (g_log l e) = image_guides e"
  "mirror_installed (g_log l e) = mirror_installed e"
  "remove_multi_stroke_calls (g_log l e) = remove_multi_stroke_calls e"
  "next_guide_ID (g_log l e) = next_guide_ID e"
  "guide_heap (g_log l e) = guide_heap e"
  "node_heap (g_log l e) = node_heap e"
  "ref_count (g_log l e) = ref_count e"
  "next_ref (g_log l e) = next_ref e"
  "handlers (g_log l e) = handlers e"
  "strokes_updated (g_log l e) = strokes_updated e"
  "out_of_range_gint (g_log l e) = out_of_range_gint e"
  "undefined_conversions (g_log l e) = undefined_conversions e"
  "image_width (g_signal_connect g sig cb e) = image_width e"
  "image_height (g_signal_connect g sig cb e) = image_height e"
  "image_guides (g_signal_connect g sig cb e) = image_guides e"
  "mirror_installed (g_signal_connect g sig cb e) = mirror_installed e"
  "remove_multi_stroke_calls (g_signal_connect g sig cb e) = remove_multi_stroke_calls e"
  "next_guide_ID (g_signal_connect g sig cb e) = next_guide_ID e"
  "guide_heap (g_signal_connect g sig cb e) = guide_heap e"
  "node_heap (g_signal_connect g sig cb e) = node_heap e"
  "ref_count (g_signal_connect g sig cb e) = ref_count e"
  "next_ref (g_signal_connect g sig cb e) = next_ref e"
  "glib_log (g_signal_connect g sig cb e) = glib_log e"
  "strokes_updated (g_signal_connect g sig cb e) = strokes_updated e"
  "out_of_range_gint (g_signal_connect g sig cb e) = out_of_range_gint e"
  "undefined_conversions (g_signal_connect g sig cb e) = undefined_conversions e"
  "image_width (g_signal_handlers_disconnect_by_func p cb e) = image_width e"
  "image_height (g_signal_handlers_disconnect_by_func p cb e) = image_height e"
  "image_guides (g_signal_handlers_disconnect_by_func p cb e) = image_guides e"
  "mirror_installed (g_signal_handlers_disconnect_by_func p cb e) = mirror_installed e"
  "remove_multi_stroke_calls (g_signal_handlers_disconnect_by_func p cb e) = remove_multi_stroke_calls e"
  "next_guide_ID (g_signal_handlers_disconnect_by_func p cb e) = next_guide_ID e"
  "guide_heap (g_signal_handlers_disconnect_by_func p cb e) = guide_heap e"
  "node_heap (g_signal_handlers_disconnect_by_func p cb e) = node_heap e"
  "ref_count (g_signal_handlers_disconnect_by_func p cb e) = ref_count e"
  "next_ref (g_signal_handlers_disconnect_by_func p cb e) = next_ref e"
  "strokes_updated (g_signal_handlers_disconnect_by_func p cb e) = strokes_updated e"
  "out_of_range_gint (g_signal_handlers_disconnect_by_func p cb e) = out_of_range_gint e"
  "undefined_conversions (g_signal_handlers_disconnect_by_func p cb e) = undefined_conversions e"
  "image_width (snd (gimp_mirror_guide_new orient gid e)) = image_width e"
  "image_height (snd (gimp_mirror_guide_new orient gid e)) = image_height e"
  "image_guides (snd (gimp_mirror_guide_new orient gid e)) = image_guides e"
  "mirror_installed (snd (gimp_mirror_guide_new orient gid e)) = mirror_installed e"
  "remove_multi_stroke_calls (snd (gimp_mirror_guide_new orient gid e)) = remove_multi_stroke_calls e"
  "next_guide_ID (snd (gimp_mirror_guide_new orient gid e)) = next_guide_ID e"
  "node_heap (snd (gimp_mirror_guide_new orient gid e)) = node_heap e"
  "handlers (snd (gimp_mirror_guide_new orient gid e)) = handlers e"
  "glib_log (snd (gimp_mirror_guide_new orient gid e)) = glib_log e"
  "strokes_updated (snd (gimp_mirror_guide_new orient gid e)) = strokes_updated e"
  "out_of_range_gint (snd (gimp_mirror_guide_new orient gid e)) = out_of_range_gint e"
  "undefined_conversions (snd (gimp_mirror_guide_new orient gid e)) = undefined_conversions e"
  "image_width (g_object_unref r e) = image_width e"
  "image_height (g_object_unref r e) = image_height e"
  "image_guides (g_object_unref r e) = image_guides e"
  "mirror_installed (g_object_unref r e) = mirror_installed e"
  "remove_multi_stroke_calls (g_object_unref r e) = remove_multi_stroke_calls e"
  "next_guide_ID (g_object_unref r e) = next_guide_ID e"
  "guide_heap (g_object_unref r e) = guide_heap e"
  "node_heap (g_object_unref r e) = node_heap e"
  "next_ref (g_object_unref r e) = next_ref e"
  "handlers (g_object_unref r e) = handlers e"
  "glib_log (g_object_unref r e) = glib_log e"
  "strokes_updated (g_object_unref r e) = strokes_updated e"
  "out_of_range_gint (g_object_unref r e) = out_of_range_gint e"
  "undefined_conversions (g_object_unref r e) = undefined_conversions e"
  by (simp_all add: g_log_def g_signal_connect_def g_signal_handlers_disconnect_by_func_def
      gimp_mirror_guide_new_def g_object_unref_def split: option.splits)

text \<open>
  The hide block: after the two disconnections no callback is connected to the guide, so
  removing the guide from the image runs none.
\<close>

lemma remove_guide_disconnected:
  "gimp_image_remove_guide p
     (m, g_signal_handlers_disconnect_by_func p CB_guide_position
           (g_signal_handlers_disconnect_by_func p CB_guide_removed e)) =
   (m, case p of
         None \<Rightarrow> g_log G_LOG_LEVEL_CRITICAL (g_log G_LOG_LEVEL_CRITICAL
                   (g_log G_LOG_LEVEL_CRITICAL e))
       | Some g \<Rightarrow>
           e\<lparr>handlers := filter (\<lambda>h. fst h \<noteq> g) (handlers e),
             image_guides := remove1 g (image_guides e)\<rparr>)"
proof (cases p)
  case None
  then show ?thesis
    by (simp add: gimp_image_remove_guide_def g_signal_handlers_disconnect_by_func_def)
next
  case (Some g)
  have eq: "(\<not> (fst h = g \<and> snd (snd h) = CB_guide_removed) \<and>
             \<not> (fst h = g \<and> snd (snd h) = CB_guide_position)) = (fst h \<noteq> g)"
    for h :: "obj_ref \<times> string \<times> callback"
    by (cases "snd (snd h)") auto
  have "filter (\<lambda>h. \<not> (fst h = g \<and> snd (snd h) = CB_guide_position))
          (filter (\<lambda>h. \<not> (fst h = g \<and> snd (snd h) = CB_guide_removed)) (handlers e)) =
        filter (\<lambda>h. fst h \<noteq> g) (handlers e)"
    unfolding filter_filter eq ..
  then show ?thesis
    using Some
    by (simp add: gimp_image_remove_guide_def g_signal_handlers_disconnect_by_func_def Let_def)
qed


subsection \<open>The cache invariant\<close>

text \<open>
  \<open>operations_cached\<close> holds for a new mirror and is kept by every operation of the file,
  so it holds in every state the selector can be called in.
\<close>

lemma cached_cong:
  assumes "operations_cached s"
    and "last_paint_width (fst s') = last_paint_width (fst s)"
    and "last_paint_height (fst s') = last_paint_height (fst s)"
    and "horizontal_op (fst s') = horizontal_op (fst s)"
    and "vertical_op (fst s') = vertical_op (fst s)"
    and "central_op (fst s') = central_op (fst s)"
    and "node_heap (snd s') = node_heap (snd s)"
  shows "operations_cached s'"
  using assms by (auto simp add: operations_cached_def split_beta split: option.splits)

lemma new_mirror_cached:
  "operations_cached (gimp_mirror_init zeroed_instance, fresh_host w h)"
  by (simp add: operations_cached_def gimp_mirror_init_def zeroed_instance_def)

lemma prepare_keeps_cached:
  assumes "operations_cached (m, e)"
  shows "operations_cached (gimp_mirror_prepare_operations w h (m, e))"
proof (cases "w = 0 \<and> h = 0")
  case True
  then show ?thesis
    using prepare_keeps(6,7) [of w h m e]
    by (simp add: operations_cached_def split_beta)
next
  case False
  then show ?thesis
    using prepare_establishes_cache [OF assms, of w h] prepare_keeps(6,7) [of w h m e]
    by (auto simp add: operations_cached_def split_beta split: option.splits)
qed

lemma get_operation_keeps_cached:
  assumes "operations_cached (m, e)"
  shows "operations_cached (snd (gimp_mirror_get_operation stroke w h (m, e)))"
proof -
  obtain m1 e1 where p: "gimp_mirror_prepare_operations w h (m, e) = (m1, e1)"
    by (cases "gimp_mirror_prepare_operations w h (m, e)")
  with prepare_keeps_cached [OF assms, of w h] have c: "operations_cached (m1, e1)"
    by simp
  have "operations_cached (m1, snd (g_object_ref r e1))" for r
    by (rule cached_cong [OF c]) (simp_all add: g_object_ref_def g_log_def split: option.splits)
  moreover have "operations_cached (m, g_log G_LOG_LEVEL_CRITICAL e)"
    by (rule cached_cong [OF assms]) simp_all
  ultimately show ?thesis
    using c by (simp add: gimp_mirror_get_operation_def p split_beta)
qed

lemma removed_cb_keeps_cache:
  assumes "operations_cached s"
  shows "operations_cached (gimp_mirror_guide_removed_cb g s)"
  by (rule cached_cong [OF assms]; cases s)
    (auto simp add: gimp_mirror_guide_removed_cb_def Let_def split_beta
      gimp_image_remove_multi_stroke_def)

lemma remove_guide_keeps_cache:
  assumes "operations_cached s"
  shows "operations_cached (gimp_image_remove_guide p s)"
proof (cases s)
  case (Pair m e)
  have "operations_cached (m, e')" if "node_heap e' = node_heap e" for e'
    using cached_cong [OF assms, of "(m, e')"] that Pair by simp
  then show ?thesis
    using Pair removed_cb_keeps_cache [of "(m, _)"]
    by (auto simp add: gimp_image_remove_guide_def Let_def split: option.splits)
qed

lemma setters_keep_cache:
  assumes "operations_cached (m, e)"
  shows "operations_cached (gimp_mirror_set_horizontal_symmetry active (m, e))"
    and "operations_cached (gimp_mirror_set_vertical_symmetry active (m, e))"
    and "operations_cached (gimp_mirror_set_point_symmetry active (m, e))"
    and "operations_cached (gimp_multi_stroke_set_origin orig (m, e))"
    and "operations_cached (gimp_mirror_update_strokes orig (m, e))"
    and "operations_cached (gimp_guide_set_position g pos (m, e))"
    and "operations_cached (gimp_mirror_guide_position_cb g (m, e))"
proof -
  show "operations_cached (gimp_mirror_set_horizontal_symmetry active (m, e))"
    by (rule cached_cong [OF assms])
      (auto simp add: gimp_mirror_set_horizontal_symmetry_def Let_def split_beta
        remove_guide_disconnected split: option.splits)
  show "operations_cached (gimp_mirror_set_vertical_symmetry active (m, e))"
    by (rule cached_cong [OF assms])
      (auto simp add: gimp_mirror_set_vertical_symmetry_def Let_def split_beta
        remove_guide_disconnected split: option.splits)
  show "operations_cached (gimp_mirror_set_point_symmetry active (m, e))"
    by (rule cached_cong [OF assms])
      (auto simp add: gimp_mirror_set_point_symmetry_def Let_def split_beta
        remove_guide_disconnected split: option.splits)
  show "operations_cached (gimp_multi_stroke_set_origin orig (m, e))"
    by (rule cached_cong [OF assms])
      (auto simp add: gimp_multi_stroke_set_origin_def gimp_mirror_update_strokes_def Let_def)
  show "operations_cached (gimp_mirror_update_strokes orig (m, e))"
    by (rule cached_cong [OF assms])
      (simp_all add: gimp_mirror_update_strokes_def Let_def)
  show "operations_cached (gimp_guide_set_position g pos (m, e))"
    by (rule cached_cong [OF assms]) simp_all
  show "operations_cached (gimp_mirror_guide_position_cb g (m, e))"
    by (rule cached_cong [OF assms]) simp_all
qed

lemma set_property_keeps_cache:
  assumes "operations_cached (m, e)"
  shows "operations_cached (gimp_mirror_set_property prop val (m, e))"
proof -
  have c: "operations_cached (m', e')"
    if "last_paint_width m' = last_paint_width m" "last_paint_height m' = last_paint_height m"
      "horizontal_op m' = horizontal_op m" "vertical_op m' = vertical_op m"
      "central_op m' = central_op m" "node_heap e' = node_heap e" for m' e'
    using cached_cong [OF assms, of "(m', e')"] that by simp
  have p: "operations_cached (gimp_guide_set_position g pos (m', snd (gint_of_gdouble d e)))"
    if "last_paint_width m' = last_paint_width m" "last_paint_height m' = last_paint_height m"
      "horizontal_op m' = horizontal_op m" "vertical_op m' = vertical_op m"
      "central_op m' = central_op m" for g pos m' d
    by (rule cached_cong [OF assms]) (simp_all add: that)
  show ?thesis
    by (cases "prop")
      (auto simp add: gimp_mirror_set_property_def Let_def split_beta
        setters_keep_cache(1-3) [OF assms] intro!: c p split: option.splits)
qed

subsection \<open>Sample states\<close>

lemmas setter_defs =
  gimp_mirror_set_horizontal_symmetry_def gimp_mirror_set_vertical_symmetry_def
  gimp_mirror_set_point_symmetry_def gimp_mirror_guide_removed_cb_def
  gimp_mirror_guide_position_cb_def gimp_guide_get_position_def
  gimp_mirror_reset_def gimp_multi_stroke_set_origin_def gimp_mirror_update_strokes_def
  gimp_mirror_guide_new_def g_signal_connect_def g_signal_handlers_disconnect_by_func_def
  gimp_image_add_guide_def gimp_image_remove_guide_def gimp_guide_set_position_def
  gimp_image_remove_multi_stroke_def g_object_unref_def g_log_def gint_of_gdouble_def
  gimp_mirror_set_property_def

lemmas sample_defs =
  new_mirror_def gimp_mirror_init_def zeroed_instance_def fresh_host_def sample_coords_def

lemma origin_set_fields:
  "origin (fst origin_set) = Some sample_coords"
  "\<not> horizontal_mirror (fst origin_set)"
  "strokes_updated (snd origin_set) = 1"
  by (simp_all add: origin_set_def setter_defs sample_defs Let_def)

lemma horizontal_on_fields:
  "strokes (fst horizontal_on) = [sample_coords, sample_coords\<lparr>y := 70\<rparr>]"
  "origin (fst horizontal_on) = Some sample_coords"
  "horizontal_mirror (fst horizontal_on)"
  "\<not> vertical_mirror (fst horizontal_on)"
  "\<not> point_symmetry (fst horizontal_on)"
  "horizontal_position (fst horizontal_on) = 40"
  "horizontal_guide (fst horizontal_on) = Some 0"
  "vertical_guide (fst horizontal_on) = None"
  "strokes_updated (snd horizontal_on) = 2"
  "remove_multi_stroke_calls (snd horizontal_on) = 0"
  "guide_heap (snd horizontal_on) 0 =
     Some \<lparr>orientation = GIMP_ORIENTATION_HORIZONTAL, guide_ID = 1, guide_position = Some 40\<rparr>"
  "handlers (snd horizontal_on) =
     [(0, ''removed'', CB_guide_removed), (0, ''notify::position'', CB_guide_position)]"
  "image_guides (snd horizontal_on) = [0]"
  "undefined_conversions (snd horizontal_on) = 0"
  by (simp_all add: horizontal_on_def origin_set_def setter_defs sample_defs Let_def)

lemma axis_moved_fields:
  "strokes (fst axis_moved) = [sample_coords, sample_coords\<lparr>y := 70\<rparr>]"
  "origin (fst axis_moved) = Some sample_coords"
  "horizontal_mirror (fst axis_moved)"
  "\<not> vertical_mirror (fst axis_moved)"
  "\<not> point_symmetry (fst axis_moved)"
  "horizontal_position (fst axis_moved) = 20"
  "strokes_updated (snd axis_moved) = 2"
  by (simp_all add: axis_moved_def gimp_mirror_set_property_def Let_def split_beta
      horizontal_on_fields gimp_guide_set_position_def gint_of_gdouble_def
      gimp_mirror_guide_position_cb_def gimp_guide_get_position_def)

lemma point_on_state:
  "horizontal_guide (fst point_on) = Some 0"
  "vertical_guide (fst point_on) = Some 1"
  "origin (fst point_on) = Some sample_coords"
  "remove_multi_stroke_calls (snd point_on) = 0"
  "mirror_installed (snd point_on)"
  "vertical_position (fst point_on) = 50"
  "\<not> vertical_mirror (fst point_on)"
  "image_guides (snd point_on) = [1, 0]"
  by (simp_all add: point_on_def origin_set_def setter_defs sample_defs Let_def)

lemma shown_twice_fields:
  "image_guides (snd shown_twice) = [0, 1, 0]"
  "horizontal_guide (fst shown_twice) = Some 0"
  "vertical_guide (fst shown_twice) = Some 1"
  "horizontal_mirror (fst shown_twice)"
  "\<not> vertical_mirror (fst shown_twice)"
  "point_symmetry (fst shown_twice)"
  "handlers (snd shown_twice) =
     [(0, ''removed'', CB_guide_removed), (0, ''notify::position'', CB_guide_position),
      (1, ''removed'', CB_guide_removed), (1, ''notify::position'', CB_guide_position),
      (0, ''removed'', CB_guide_removed), (0, ''notify::position'', CB_guide_position)]"
  by (simp_all add: shown_twice_def setter_defs sample_defs Let_def)

lemma all_off_again_fields:
  "image_guides (snd all_off_again) = [0]"
  "horizontal_guide (fst all_off_again) = Some 0"
  "vertical_guide (fst all_off_again) = Some 1"
  "\<not> horizontal_mirror (fst all_off_again)"
  "\<not> vertical_mirror (fst all_off_again)"
  "\<not> point_symmetry (fst all_off_again)"
  by (simp_all add: all_off_again_def shown_twice_def setter_defs sample_defs Let_def)

subsection \<open>The position properties\<close>




subsection \<open>The setters and the guides\<close>

text \<open>
  C5. That after every completed call of a setter the guide of an axis is in the image
  exactly when the flag of the axis or the point symmetry is set does not hold of the code.
  Setting the horizontal flag while the point symmetry has the guide shown adds the guide
  to the image a second time: the source shows the guide there without asking whether it
  is shown already, as the setter of the point symmetry does. Clearing the horizontal flag
  and then the point symmetry removes the guide once. On a new mirror, after point symmetry
  on, horizontal on, horizontal off and point symmetry off, the horizontal guide is still in
  the list of guides of the image, its handle is kept, and neither flag is set.
\<close>

theorem guide_left_attached:
  "image_guides (snd shown_twice) = [0, 1, 0] \<and>
   image_guides (snd all_off_again) = [0] \<and>
   horizontal_guide (fst all_off_again) = Some 0 \<and>
   \<not> horizontal_mirror (fst all_off_again) \<and>
   \<not> point_symmetry (fst all_off_again)"
  by (simp add: shown_twice_fields all_off_again_fields)

subsection \<open>The setters and the stroke list\<close>

lemma setters_same_value:
  "gimp_mirror_set_horizontal_symmetry (horizontal_mirror m) (m, e) = (m, e)"
  "gimp_mirror_set_vertical_symmetry (vertical_mirror m) (m, e) = (m, e)"
  "gimp_mirror_set_point_symmetry (point_symmetry m) (m, e) = (m, e)"
  by (simp_all add: gimp_mirror_set_horizontal_symmetry_def
      gimp_mirror_set_vertical_symmetry_def gimp_mirror_set_point_symmetry_def)

lemma set_horizontal_ends_with_reset:
  "active \<noteq> horizontal_mirror m \<Longrightarrow>
   \<exists>X. gimp_mirror_set_horizontal_symmetry active (m, e) = gimp_mirror_reset X \<and>
       origin (fst X) = origin m \<and> strokes (fst X) = strokes m \<and>
       strokes_updated (snd X) = strokes_updated e"
  unfolding gimp_mirror_set_horizontal_symmetry_def
  apply (simp only: prod.case if_False Let_def)
  apply (rule exI, rule conjI, rule refl)
  apply (auto simp add: split_beta remove_guide_disconnected split: option.splits)
  done

lemma set_vertical_ends_with_reset:
  "active \<noteq> vertical_mirror m \<Longrightarrow>
   \<exists>X. gimp_mirror_set_vertical_symmetry active (m, e) = gimp_mirror_reset X \<and>
       origin (fst X) = origin m \<and> strokes (fst X) = strokes m \<and>
       strokes_updated (snd X) = strokes_updated e"
  unfolding gimp_mirror_set_vertical_symmetry_def
  apply (simp only: prod.case if_False Let_def)
  apply (rule exI, rule conjI, rule refl)
  apply (auto simp add: split_beta remove_guide_disconnected split: option.splits)
  done

lemma set_point_ends_with_reset:
  "active \<noteq> point_symmetry m \<Longrightarrow>
   \<exists>X. gimp_mirror_set_point_symmetry active (m, e) = gimp_mirror_reset X \<and>
       origin (fst X) = origin m \<and> strokes (fst X) = strokes m \<and>
       strokes_updated (snd X) = strokes_updated e"
  unfolding gimp_mirror_set_point_symmetry_def
  apply (simp only: prod.case if_False Let_def)
  apply (rule exI, rule conjI, rule refl)
  apply (auto simp add: split_beta remove_guide_disconnected split: option.splits)
  done

lemma setter_reset_strokes:
  assumes "s' = gimp_mirror_reset X" and "origin (fst X) = origin m"
    and "strokes (fst X) = strokes m" and "strokes_updated (snd X) = strokes_updated e"
  shows "case origin m of
           None \<Rightarrow> strokes (fst s') = strokes m \<and> strokes_updated (snd s') = strokes_updated e
         | Some orig \<Rightarrow>
             origin (fst s') = Some orig \<and>
             strokes (fst s') = strokes (fst (gimp_mirror_update_strokes orig s')) \<and>
             strokes_updated (snd s') = Suc (strokes_updated e)"
  using assms reset_result [of X]
  by (simp add: reset_strokes(2) split: option.splits)

text \<open>
  C8 (as amended). A setter called with the value its flag has returns the state
  unchanged. A setter called with the other value ends with \<^verbatim>\<open>gimp_mirror_reset\<close>: when an
  origin has been recorded the stroke list is the one derived from that origin under the
  state the setter leaves, and the signal has been emitted once; when none has been
  recorded the stroke list is as before.
\<close>

theorem setters_idempotent_else_reset:
  assumes "(s' = gimp_mirror_set_horizontal_symmetry active (m, e) \<and>
            current = horizontal_mirror m) \<or>
           (s' = gimp_mirror_set_vertical_symmetry active (m, e) \<and>
            current = vertical_mirror m) \<or>
           (s' = gimp_mirror_set_point_symmetry active (m, e) \<and>
            current = point_symmetry m)"
  shows "(active = current \<longrightarrow> s' = (m, e)) \<and>
         (active \<noteq> current \<longrightarrow>
            (case origin m of
               None \<Rightarrow>
                 strokes (fst s') = strokes m \<and> strokes_updated (snd s') = strokes_updated e
             | Some orig \<Rightarrow>
                 origin (fst s') = Some orig \<and>
                 strokes (fst s') = strokes (fst (gimp_mirror_update_strokes orig s')) \<and>
                 strokes_updated (snd s') = Suc (strokes_updated e)))"
  using assms
proof (elim disjE conjE)
  assume a: "s' = gimp_mirror_set_horizontal_symmetry active (m, e)"
    "current = horizontal_mirror m"
  show ?thesis
  proof (cases "active = current")
    case True
    with a show ?thesis by (simp add: setters_same_value)
  next
    case False
    with a have "active \<noteq> horizontal_mirror m" by simp
    from set_horizontal_ends_with_reset [OF this, of e]
    obtain X where "gimp_mirror_set_horizontal_symmetry active (m, e) = gimp_mirror_reset X"
      "origin (fst X) = origin m" "strokes (fst X) = strokes m"
      "strokes_updated (snd X) = strokes_updated e"
      by blast
    from setter_reset_strokes [OF this] False show ?thesis
      unfolding a by (auto split: option.splits)
  qed
next
  assume a: "s' = gimp_mirror_set_vertical_symmetry active (m, e)"
    "current = vertical_mirror m"
  show ?thesis
  proof (cases "active = current")
    case True
    with a show ?thesis by (simp add: setters_same_value)
  next
    case False
    with a have "active \<noteq> vertical_mirror m" by simp
    from set_vertical_ends_with_reset [OF this, of e]
    obtain X where "gimp_mirror_set_vertical_symmetry active (m, e) = gimp_mirror_reset X"
      "origin (fst X) = origin m" "strokes (fst X) = strokes m"
      "strokes_updated (snd X) = strokes_updated e"
      by blast
    from setter_reset_strokes [OF this] False show ?thesis
      unfolding a by (auto split: option.splits)
  qed
next
  assume a: "s' = gimp_mirror_set_point_symmetry active (m, e)"
    "current = point_symmetry m"
  show ?thesis
  proof (cases "active = current")
    case True
    with a show ?thesis by (simp add: setters_same_value)
  next
    case False
    with a have "active \<noteq> point_symmetry m" by simp
    from set_point_ends_with_reset [OF this, of e]
    obtain X where "gimp_mirror_set_point_symmetry active (m, e) = gimp_mirror_reset X"
      "origin (fst X) = origin m" "strokes (fst X) = strokes m"
      "strokes_updated (snd X) = strokes_updated e"
      by blast
    from setter_reset_strokes [OF this] False show ?thesis
      unfolding a by (auto split: option.splits)
  qed
qed

theorem setters_idempotent_else_reset_witness:
  "gimp_mirror_set_horizontal_symmetry False origin_set = origin_set \<and>
   strokes (fst horizontal_on) =
     strokes (fst (gimp_mirror_update_strokes sample_coords horizontal_on)) \<and>
   strokes (fst horizontal_on) = [sample_coords, sample_coords\<lparr>y := 70\<rparr>] \<and>
   strokes_updated (snd horizontal_on) = 2"
  using setters_idempotent_else_reset [of "gimp_mirror_set_horizontal_symmetry False origin_set"
      False "fst origin_set" "snd origin_set" False]
    setters_idempotent_else_reset [of horizontal_on True "fst origin_set" "snd origin_set" False]
  by (simp add: origin_set_fields horizontal_on_fields horizontal_on_def [symmetric])

text \<open>
  The claim as stated fails for a call with the current value: after the horizontal
  position has been moved from 40 to 20, setting the horizontal flag, which is set, leaves
  the stroke list derived with 40, where a recomputation gives the one derived with 20.
\<close>

theorem setters_idempotent_else_reset_counterexample:
  "origin (fst axis_moved) = Some sample_coords \<and>
   gimp_mirror_set_horizontal_symmetry True axis_moved = axis_moved \<and>
   strokes (fst (gimp_mirror_set_horizontal_symmetry True axis_moved)) =
     [sample_coords, sample_coords\<lparr>y := 70\<rparr>] \<and>
   strokes (fst (gimp_mirror_reset axis_moved)) =
     [sample_coords, sample_coords\<lparr>y := 30\<rparr>] \<and>
   strokes_updated (snd (gimp_mirror_set_horizontal_symmetry True axis_moved)) =
     strokes_updated (snd axis_moved)"
proof -
  have a: "gimp_mirror_set_horizontal_symmetry True axis_moved = axis_moved"
    using setters_same_value(1) [of "fst axis_moved" "snd axis_moved"]
    by (simp add: axis_moved_fields)
  show ?thesis
    by (simp add: a axis_moved_fields reset_strokes strokes_update_strokes_state
        sample_coords_def)
qed

subsection \<open>The callback of a removed guide\<close>

lemma callback_cases:
  "b \<noteq> CB_guide_removed \<Longrightarrow> b \<noteq> CB_guide_position \<Longrightarrow> False"
  by (cases b) simp_all

lemma removed_cb_horizontal:
  assumes "horizontal_guide m = Some g"
  shows "case gimp_mirror_guide_removed_cb g (m, e) of
       (m', e') \<Rightarrow>
         horizontal_guide m' = None \<and> \<not> horizontal_mirror m' \<and> \<not> point_symmetry m' \<and>
         horizontal_position m' = 0 \<and>
         ref_count e' g = ref_count e g - 1 \<and>
         (\<forall>h \<in> set (handlers e'). fst h \<noteq> g) \<and>
         vertical_guide m' = vertical_guide m \<and> vertical_mirror m' = vertical_mirror m \<and>
         vertical_position m' = vertical_position m \<and> image_guides e' = image_guides e \<and>
         (if vertical_guide m = None
          then remove_multi_stroke_calls e' = Suc (remove_multi_stroke_calls e) \<and>
               \<not> mirror_installed e' \<and> strokes m' = strokes m
          else remove_multi_stroke_calls e' = remove_multi_stroke_calls e \<and>
               mirror_installed e' = mirror_installed e \<and>
               (case origin m of
                  None \<Rightarrow> strokes m' = strokes m
                | Some orig \<Rightarrow>
                    strokes m' = strokes (fst (gimp_mirror_update_strokes orig (m', e')))))"
  using assms
  apply (simp add: gimp_mirror_guide_removed_cb_def Let_def split_beta
      g_signal_handlers_disconnect_by_func_def g_object_unref_def
      gimp_image_remove_multi_stroke_def reset_result)
  apply (auto simp add: reset_result dest: callback_cases split: option.splits)
  done

lemma removed_cb_vertical:
  assumes "vertical_guide m = Some g" and "horizontal_guide m \<noteq> Some g"
  shows "case gimp_mirror_guide_removed_cb g (m, e) of
       (m', e') \<Rightarrow>
         vertical_guide m' = None \<and> \<not> vertical_mirror m' \<and> \<not> point_symmetry m' \<and>
         vertical_position m' = 0 \<and>
         ref_count e' g = ref_count e g - 1 \<and>
         (\<forall>h \<in> set (handlers e'). fst h \<noteq> g) \<and>
         horizontal_guide m' = horizontal_guide m \<and> horizontal_mirror m' = horizontal_mirror m \<and>
         horizontal_position m' = horizontal_position m \<and> image_guides e' = image_guides e \<and>
         (if horizontal_guide m = None
          then remove_multi_stroke_calls e' = Suc (remove_multi_stroke_calls e) \<and>
               \<not> mirror_installed e' \<and> strokes m' = strokes m
          else remove_multi_stroke_calls e' = remove_multi_stroke_calls e \<and>
               mirror_installed e' = mirror_installed e \<and>
               (case origin m of
                  None \<Rightarrow> strokes m' = strokes m
                | Some orig \<Rightarrow>
                    strokes m' = strokes (fst (gimp_mirror_update_strokes orig (m', e')))))"
  using assms
  apply (simp add: gimp_mirror_guide_removed_cb_def Let_def split_beta
      g_signal_handlers_disconnect_by_func_def g_object_unref_def
      gimp_image_remove_multi_stroke_def reset_result)
  apply (auto simp add: reset_result dest: callback_cases split: option.splits)
  done

text \<open>
  C6. When the removed guide is the horizontal (vertical) guide of the mirror, the callback
  releases the handle, clears the flag of that axis and the point symmetry, and sets the
  position of that axis to 0; no handler of the guide stays connected. The flag, the
  position and the handle of the other axis and the guide collection are unchanged. When
  the other axis has no handle, the mirror is uninstalled from the image by exactly one
  call and the stroke list is left alone; otherwise the mirror stays installed and the
  stroke list is derived again from the recorded origin, if there is one.
\<close>

theorem guide_removed_cb_effect:
  "(horizontal_guide m = Some g \<longrightarrow>
      (case gimp_mirror_guide_removed_cb g (m, e) of
            (m', e') \<Rightarrow>
              horizontal_guide m' = None \<and> \<not> horizontal_mirror m' \<and> \<not> point_symmetry m' \<and>
              horizontal_position m' = 0 \<and>
              ref_count e' g = ref_count e g - 1 \<and>
              (\<forall>h \<in> set (handlers e'). fst h \<noteq> g) \<and>
              vertical_guide m' = vertical_guide m \<and> vertical_mirror m' = vertical_mirror m \<and>
              vertical_position m' = vertical_position m \<and> image_guides e' = image_guides e \<and>
              (if vertical_guide m = None
               then remove_multi_stroke_calls e' = Suc (remove_multi_stroke_calls e) \<and>
                    \<not> mirror_installed e' \<and> strokes m' = strokes m
               else remove_multi_stroke_calls e' = remove_multi_stroke_calls e \<and>
                    mirror_installed e' = mirror_installed e \<and>
                    (case origin m of
                       None \<Rightarrow> strokes m' = strokes m
                     | Some orig \<Rightarrow>
                         strokes m' = strokes (fst (gimp_mirror_update_strokes orig (m', e')))))))
   \<and> (vertical_guide m = Some g \<and> horizontal_guide m \<noteq> Some g \<longrightarrow>
      (case gimp_mirror_guide_removed_cb g (m, e) of
            (m', e') \<Rightarrow>
              vertical_guide m' = None \<and> \<not> vertical_mirror m' \<and> \<not> point_symmetry m' \<and>
              vertical_position m' = 0 \<and>
              ref_count e' g = ref_count e g - 1 \<and>
              (\<forall>h \<in> set (handlers e'). fst h \<noteq> g) \<and>
              horizontal_guide m' = horizontal_guide m \<and> horizontal_mirror m' = horizontal_mirror m \<and>
              horizontal_position m' = horizontal_position m \<and> image_guides e' = image_guides e \<and>
              (if horizontal_guide m = None
               then remove_multi_stroke_calls e' = Suc (remove_multi_stroke_calls e) \<and>
                    \<not> mirror_installed e' \<and> strokes m' = strokes m
               else remove_multi_stroke_calls e' = remove_multi_stroke_calls e \<and>
                    mirror_installed e' = mirror_installed e \<and>
                    (case origin m of
                       None \<Rightarrow> strokes m' = strokes m
                     | Some orig \<Rightarrow>
                         strokes m' = strokes (fst (gimp_mirror_update_strokes orig (m', e')))))))"
  apply (intro conjI impI)
   apply (erule removed_cb_horizontal)
  apply (erule conjE)
  apply (erule (1) removed_cb_vertical)
  done

theorem guide_removed_cb_effect_witness:
  "remove_multi_stroke_calls (snd (gimp_mirror_guide_removed_cb 0 horizontal_on)) = 1 \<and>
   \<not> mirror_installed (snd (gimp_mirror_guide_removed_cb 0 horizontal_on)) \<and>
   horizontal_guide (fst (gimp_mirror_guide_removed_cb 0 horizontal_on)) = None \<and>
   \<not> horizontal_mirror (fst (gimp_mirror_guide_removed_cb 0 horizontal_on)) \<and>
   horizontal_position (fst (gimp_mirror_guide_removed_cb 0 horizontal_on)) = 0 \<and>
   remove_multi_stroke_calls (snd (gimp_mirror_guide_removed_cb 1 point_on)) = 0 \<and>
   mirror_installed (snd (gimp_mirror_guide_removed_cb 1 point_on)) \<and>
   vertical_guide (fst (gimp_mirror_guide_removed_cb 1 point_on)) = None \<and>
   horizontal_guide (fst (gimp_mirror_guide_removed_cb 1 point_on)) = Some 0 \<and>
   \<not> point_symmetry (fst (gimp_mirror_guide_removed_cb 1 point_on))"
  using guide_removed_cb_effect [of "fst horizontal_on" 0 "snd horizontal_on"]
    guide_removed_cb_effect [of "fst point_on" 1 "snd point_on"]
  by (simp add: horizontal_on_fields point_on_state split_beta)

end
